theory Spec2Isabelle
  imports Complex_Main "HOL-Library.Sublist"
begin

section \<open>SatWatch route hazard correlation (app.py)\<close>

text \<open>
  A shallow embedding of the hazard correlation functions of \<^verbatim>\<open>src/app.py\<close>:
  \<^verbatim>\<open>haversine\<close>, \<^verbatim>\<open>fetch_local_advisories\<close>, \<^verbatim>\<open>fetch_and_check_gdacs_alerts\<close>,
  \<^verbatim>\<open>fetch_weather_alerts\<close>, \<^verbatim>\<open>get_satellite_url\<close> and the part of
  \<^verbatim>\<open>analyze_route\<close> that runs once geocoding and routing have succeeded.

  Conventions of the embedding.
  \<^item> A Python \<^verbatim>\<open>float\<close> is the \<^typ>\<open>real\<close> number it denotes (infinities and
    NaN are outside the model). Every operation on floats rounds its result; how it rounds
    is not fixed here: the rounded operations of \<^verbatim>\<open>haversine\<close> are the fields of a
    record \<open>fpu\<close>, a parameter of every function that computes a distance, and what is
    proved for every \<open>fpu\<close> holds of the machine's. Comparisons of floats are exact.
    \<^verbatim>\<open>math.sqrt\<close> keeps its domain error.
  \<^item> A Python \<^verbatim>\<open>str\<close> is a \<^typ>\<open>string\<close> of ASCII characters, and
    \<^verbatim>\<open>str.lower\<close> acts on the letters A to Z.
  \<^item> An exception is a value of \<open>error\<close>; a \<^verbatim>\<open>try\<close> body returns a sum and
    the \<^verbatim>\<open>except\<close> clause is the case distinction on it.
  \<^item> What the network answers is an argument: the outcome of the one feed download, and a
    weather service that is asked once per sampled point and whose answer may depend on
    the requests made before.
\<close>

subsection \<open>Data model\<close>

datatype error =
    AttributeError | ValueError | IndexError | KeyError
  | ConnectionError | HTTPError | ParseError

text \<open>A point is the two-element list \<^verbatim>\<open>[lat, lon]\<close>, in decimal degrees.\<close>

type_synonym point = "real \<times> real"

text \<open>A hazard is the dictionary with the keys \<^verbatim>\<open>coords\<close>, \<^verbatim>\<open>details\<close> and
  \<^verbatim>\<open>location_name\<close> that every source appends.\<close>

record hazard =
  coords :: point
  details :: string
  location_name :: string

subsection \<open>Strings\<close>

definition lower_char :: "char \<Rightarrow> char" where
  "lower_char c =
     (let n = (of_char c :: nat) in if 65 \<le> n \<and> n \<le> 90 then char_of (n + 32) else c)"

definition lower :: "string \<Rightarrow> string" where
  "lower s = map lower_char s"

text \<open>\<^verbatim>\<open>s.startswith(sub)\<close>, and the operator \<^verbatim>\<open>sub in s\<close> on strings: \<open>sub\<close>
  starts at some position of \<open>s\<close>.\<close>

fun startswith :: "string \<Rightarrow> string \<Rightarrow> bool" where
  "startswith s [] = True"
| "startswith [] (c # cs) = False"
| "startswith (x # xs) (c # cs) = (x = c \<and> startswith xs cs)"

fun str_in :: "string \<Rightarrow> string \<Rightarrow> bool" where
  "str_in sub [] = (sub = [])"
| "str_in sub (c # cs) = (startswith (c # cs) sub \<or> str_in sub cs)"

subsection \<open>Floating-point arithmetic\<close>

text \<open>The operations \<^verbatim>\<open>haversine\<close> performs on floats, as the machine computes them:
  \<^verbatim>\<open>+\<close>, \<^verbatim>\<open>-\<close>, \<^verbatim>\<open>*\<close>, \<^verbatim>\<open>/\<close>, \<^verbatim>\<open>** 2\<close>, \<^verbatim>\<open>math.sin\<close>,
  \<^verbatim>\<open>math.cos\<close>, \<^verbatim>\<open>math.sqrt\<close> (on an argument that is not negative),
  \<^verbatim>\<open>math.atan2\<close> and \<^verbatim>\<open>math.radians\<close>.\<close>

record fpu =
  f_add :: "real \<Rightarrow> real \<Rightarrow> real"
  f_sub :: "real \<Rightarrow> real \<Rightarrow> real"
  f_mul :: "real \<Rightarrow> real \<Rightarrow> real"
  f_div :: "real \<Rightarrow> real \<Rightarrow> real"
  f_sqr :: "real \<Rightarrow> real"
  f_sin :: "real \<Rightarrow> real"
  f_cos :: "real \<Rightarrow> real"
  f_sqrt :: "real \<Rightarrow> real"
  f_atan2 :: "real \<Rightarrow> real \<Rightarrow> real"
  f_radians :: "real \<Rightarrow> real"

text \<open>The functions these operations approximate.\<close>

definition radians :: "real \<Rightarrow> real" where
  "radians x = x * pi / 180"

text \<open>The angle of the vector \<open>(x, y)\<close>, in \<open>(-pi, pi]\<close>.\<close>

definition atan2 :: "real \<Rightarrow> real \<Rightarrow> real" where
  "atan2 y x =
     (if 0 < x then arctan (y / x)
      else if x < 0 then (if 0 \<le> y then arctan (y / x) + pi else arctan (y / x) - pi)
      else if 0 < y then pi / 2
      else if y < 0 then - (pi / 2)
      else 0)"

text \<open>Arithmetic without rounding: every operation returns the exact result.\<close>

definition exact_fpu :: fpu where
  "exact_fpu =
     \<lparr>f_add = (\<lambda>x y. x + y), f_sub = (\<lambda>x y. x - y), f_mul = (\<lambda>x y. x * y),
      f_div = (\<lambda>x y. x / y), f_sqr = (\<lambda>x. x\<^sup>2), f_sin = sin, f_cos = cos, f_sqrt = sqrt,
      f_atan2 = atan2, f_radians = radians\<rparr>"

subsection \<open>The distance primitive (lines 92 to 99)\<close>

text \<open>\<^verbatim>\<open>math.sqrt\<close> raises \<^verbatim>\<open>ValueError\<close> on a negative argument.\<close>

definition py_sqrt :: "fpu \<Rightarrow> real \<Rightarrow> error + real" where
  "py_sqrt fp x = (if x < 0 then Inl ValueError else Inr (f_sqrt fp x))"

definition haversine :: "fpu \<Rightarrow> real \<Rightarrow> real \<Rightarrow> real \<Rightarrow> real \<Rightarrow> error + real" where
  "haversine fp lat1 lon1 lat2 lon2 =
     (let R = 6371;
          dlat = f_radians fp (f_sub fp lat2 lat1);
          dlon = f_radians fp (f_sub fp lon2 lon1);
          a = f_add fp
                (f_sqr fp (f_sin fp (f_div fp dlat 2)))
                (f_mul fp
                   (f_mul fp (f_cos fp (f_radians fp lat1)) (f_cos fp (f_radians fp lat2)))
                   (f_sqr fp (f_sin fp (f_div fp dlon 2))))
      in case py_sqrt fp a of
           Inl e \<Rightarrow> Inl e
         | Inr sa \<Rightarrow>
             (case py_sqrt fp (f_sub fp 1 a) of
                Inl e \<Rightarrow> Inl e
              | Inr sb \<Rightarrow> Inr (f_mul fp R (f_mul fp 2 (f_atan2 fp sa sb)))))"

text \<open>The value of \<open>a\<close> on line 97, named for the proofs.\<close>

definition hav_a :: "fpu \<Rightarrow> real \<Rightarrow> real \<Rightarrow> real \<Rightarrow> real \<Rightarrow> real" where
  "hav_a fp lat1 lon1 lat2 lon2 =
     f_add fp
       (f_sqr fp (f_sin fp (f_div fp (f_radians fp (f_sub fp lat2 lat1)) 2)))
       (f_mul fp
          (f_mul fp (f_cos fp (f_radians fp lat1)) (f_cos fp (f_radians fp lat2)))
          (f_sqr fp (f_sin fp (f_div fp (f_radians fp (f_sub fp lon2 lon1)) 2))))"

subsection \<open>Local advisories (lines 23 to 89 and 101 to 108)\<close>

text \<open>The dictionary \<^verbatim>\<open>MOCK_LOCAL_ADVISORIES\<close> in its insertion order, which is the
  order \<^verbatim>\<open>.items()\<close> iterates in.\<close>

definition MOCK_LOCAL_ADVISORIES :: "(string \<times> hazard) list" where
  "MOCK_LOCAL_ADVISORIES =
    [(''Kufri'',
      \<lparr>coords = (31.1005, 77.2658),
       details = ''Heavy Snowfall Warning: Kufri and surrounding areas experience heavy snow, leading to frequent road blockages. Check road status before travel. Only 4x4 vehicles with snow chains are recommended.'',
       location_name = ''Kufri, Himachal Pradesh''\<rparr>),
     (''Shimla'',
      \<lparr>coords = (31.1048, 77.1734),
       details = ''Road Advisory: Heavy snowfall in winter. Main roads can be treacherous. During monsoon, risk of landslides is high. Drive with caution.'',
       location_name = ''Shimla, Himachal Pradesh''\<rparr>),
     (''Himachal Pradesh'',
      \<lparr>coords = (31.7104, 76.9325),
       details = ''General Advisory for Himachal: The state is prone to landslides and flash floods during monsoon (July-Sept) and heavy snowfall in winter (Dec-Feb). Always check local weather and road conditions.'',
       location_name = ''Himachal Pradesh''\<rparr>),
     (''Jammu'',
      \<lparr>coords = (32.7266, 74.8570),
       details = ''Landslide & Security Advisory: The Jammu-Srinagar highway (NH44) is prone to frequent closures due to landslides, especially near Ramban. Follow all security advisories and travel only during daylight hours.'',
       location_name = ''Jammu Region, J&K''\<rparr>),
     (''Ladakh'',
      \<lparr>coords = (34.1526, 77.5771),
       details = ''High-Altitude & Weather Advisory: Risk of acute mountain sickness. Roads like Zoji La & Rohtang Pass are closed in winter. Expect extreme cold and limited facilities. Acclimatize properly before travel.'',
       location_name = ''Ladakh Union Territory''\<rparr>),
     (''Kedarnath'',
      \<lparr>coords = (30.7352, 79.0669),
       details = ''Mountain Route Advisory: Seasonal road closures and heavy landslides reported. Travel is **NOT ADVISED** at this time.'',
       location_name = ''Rudraprayag district, Uttarakhand''\<rparr>),
     (''Joshimath'',
      \<lparr>coords = (30.5656, 79.5645),
       details = ''Severe Land Subsidence Warning: This area is experiencing significant land sinking. Many structures are unsafe. Non-essential travel is strongly discouraged.'',
       location_name = ''Joshimath, Chamoli, Uttarakhand''\<rparr>),
     (''Assam'',
      \<lparr>coords = (26.1445, 91.7362),
       details = ''Monsoon Flood Alert: The Brahmaputra river regularly causes widespread flooding during the monsoon season (June-September). Check current conditions before travel.'',
       location_name = ''Assam River Plains''\<rparr>),
     (''Bihar'',
      \<lparr>coords = (25.5941, 85.1376),
       details = ''Severe Flood Risk: The Kosi and Ganges rivers can cause extensive and rapid flooding during monsoon season. Travel to northern districts may be disrupted.'',
       location_name = ''Northern Bihar''\<rparr>),
     (''Kerala'',
      \<lparr>coords = (10.8505, 76.2711),
       details = ''Flood Warning: Monsoon season has caused local flooding. Some low-lying areas are impassable. Check local reports.'',
       location_name = ''Kerala, India''\<rparr>),
     (''Mumbai'',
      \<lparr>coords = (19.0760, 72.8777),
       details = ''Cyclone Advisory: Heavy winds and storm surge expected. Travel to coastal areas is not advised.'',
       location_name = ''Mumbai Coastline''\<rparr>),
     (''Odisha'',
      \<lparr>coords = (19.8135, 85.8312),
       details = ''Cyclone Alert Zone: This coastal region is highly susceptible to cyclones, especially from May-June and October-November. Monitor weather reports for cyclone warnings.'',
       location_name = ''Puri, Odisha Coast''\<rparr>),
     (''Sundarbans'',
      \<lparr>coords = (21.9497, 88.8533),
       details = ''Storm Surge & Cyclone Warning: This low-lying delta region is extremely vulnerable to storm surges from cyclones in the Bay of Bengal. Follow all official advisories.'',
       location_name = ''Sundarbans Delta, West Bengal''\<rparr>)]"

text \<open>The loop of \<^verbatim>\<open>fetch_local_advisories\<close> over the items still to visit:
  the first key found in the destination name appends its advisory and breaks.\<close>

fun advisory_loop :: "(string \<times> hazard) list \<Rightarrow> string \<Rightarrow> hazard list \<Rightarrow> hazard list" where
  "advisory_loop [] end_loc_name local_hazards = local_hazards"
| "advisory_loop ((loc_name, advisory) # rest) end_loc_name local_hazards =
     (if str_in (lower loc_name) (lower end_loc_name)
      then local_hazards @ [advisory]
      else advisory_loop rest end_loc_name local_hazards)"

definition fetch_local_advisories :: "string \<Rightarrow> hazard list" where
  "fetch_local_advisories end_loc_name = advisory_loop MOCK_LOCAL_ADVISORIES end_loc_name []"

subsection \<open>Disaster alerts (lines 110 to 131)\<close>

text \<open>
  An \<^verbatim>\<open>item\<close> element of the feed, as the loop reads it.
  \<^item> \<open>title\<close> is the text of its \<^verbatim>\<open>title\<close> child, \<open>None\<close> when there is no such child:
    \<^verbatim>\<open>item.find('title').text\<close> then raises \<^verbatim>\<open>AttributeError\<close>.
  \<^item> \<open>georss_point\<close> is its \<^verbatim>\<open>georss:point\<close> child: absent, or with a text that
    \<^verbatim>\<open>map(float, text.split())\<close> does not turn into exactly two floats (the exception
    raised is kept), or the two floats.
\<close>

datatype point_elem = Absent | Malformed error | Parsed real real

record feed_item =
  title :: "string option"
  georss_point :: point_elem

text \<open>The outcome of lines 115 to 117: \<open>Inl\<close> when \<^verbatim>\<open>requests.get\<close>,
  \<^verbatim>\<open>raise_for_status\<close> or \<^verbatim>\<open>ET.fromstring\<close> raised, else the items of the document
  in document order.\<close>

type_synonym gdacs_response = "error + feed_item list"

text \<open>The loops return the list \<^verbatim>\<open>detected_hazards\<close> as it stands when they stop, and
  the exception that stopped them, if one did: also the \<^verbatim>\<open>ValueError\<close> of
  \<^verbatim>\<open>haversine\<close>, which line 129 catches like any other.\<close>

fun route_loop ::
  "fpu \<Rightarrow> point list \<Rightarrow> real \<Rightarrow> real \<Rightarrow> string \<Rightarrow> hazard list
     \<Rightarrow> hazard list \<times> error option" where
  "route_loop fp [] lat lon ttl detected_hazards = (detected_hazards, None)"
| "route_loop fp (route_point # rest) lat lon ttl detected_hazards =
     (case haversine fp (fst route_point) (snd route_point) lat lon of
        Inl e \<Rightarrow> (detected_hazards, Some e)
      | Inr d \<Rightarrow>
          if d < 50
          then (detected_hazards
                  @ [\<lparr>coords = (lat, lon), details = ttl, location_name = ''Near your route''\<rparr>],
                None)
          else route_loop fp rest lat lon ttl detected_hazards)"

fun item_loop ::
  "fpu \<Rightarrow> point list \<Rightarrow> feed_item list \<Rightarrow> hazard list \<Rightarrow> hazard list \<times> error option" where
  "item_loop fp route_points [] detected_hazards = (detected_hazards, None)"
| "item_loop fp route_points (item # rest) detected_hazards =
     (case title item of
        None \<Rightarrow> (detected_hazards, Some AttributeError)
      | Some ttl \<Rightarrow>
          (case georss_point item of
             Absent \<Rightarrow> item_loop fp route_points rest detected_hazards
           | Malformed e \<Rightarrow> (detected_hazards, Some e)
           | Parsed lat lon \<Rightarrow>
               (case route_loop fp route_points lat lon ttl detected_hazards of
                  (detected_hazards', Some e) \<Rightarrow> (detected_hazards', Some e)
                | (detected_hazards', None) \<Rightarrow>
                    item_loop fp route_points rest detected_hazards')))"

text \<open>The \<^verbatim>\<open>except Exception\<close> clause prints and falls through to
  \<^verbatim>\<open>return detected_hazards\<close>: whatever the \<^verbatim>\<open>try\<close> body did, the list is returned.\<close>

definition fetch_and_check_gdacs_alerts ::
  "fpu \<Rightarrow> gdacs_response \<Rightarrow> point list \<Rightarrow> hazard list" where
  "fetch_and_check_gdacs_alerts fp response route_points =
     (case response of
        Inl e \<Rightarrow> []
      | Inr items \<Rightarrow> fst (item_loop fp route_points items []))"

subsection \<open>Weather alerts (lines 133 to 157)\<close>

text \<open>
  The JSON document of the weather provider, with the types its interface gives: an
  optional \<^verbatim>\<open>weather\<close> array of objects with an integer \<^verbatim>\<open>id\<close> and a string
  \<^verbatim>\<open>description\<close>, and an optional string \<^verbatim>\<open>name\<close>. A key that is missing is
  \<open>None\<close>.
\<close>

record weather_entry =
  weather_id :: "int option"
  description :: "string option"

record weather_data =
  weather :: "weather_entry list option"
  name :: "string option"

text \<open>The outcome of lines 146 to 148: \<open>Inl\<close> when \<^verbatim>\<open>requests.get\<close>,
  \<^verbatim>\<open>raise_for_status\<close> or \<^verbatim>\<open>response.json\<close> raised.\<close>

type_synonym weather_response = "error + weather_data"

text \<open>The weather service: its answer to a request for a point, given the points
  requested before (oldest first).\<close>

type_synonym weather_service = "point list \<Rightarrow> point \<Rightarrow> weather_response"

text \<open>The \<^verbatim>\<open>try\<close> body of the loop from line 149 on: the hazards to append, or the
  exception. \<^verbatim>\<open>data.get('weather')\<close> is falsy for a missing key and for an empty array.\<close>

definition weather_try :: "point \<Rightarrow> weather_response \<Rightarrow> error + hazard list" where
  "weather_try pt response =
     (case response of
        Inl e \<Rightarrow> Inl e
      | Inr data \<Rightarrow>
          (case weather data of
             None \<Rightarrow> Inr []
           | Some [] \<Rightarrow> Inr []
           | Some (w # ws) \<Rightarrow>
               (case weather_id w of
                  None \<Rightarrow> Inl KeyError
                | Some i \<Rightarrow>
                    if 200 \<le> i \<and> i < 800
                    then (case description w of
                            None \<Rightarrow> Inl KeyError
                          | Some desc \<Rightarrow>
                              Inr [\<lparr>coords = pt,
                                    details = ''Weather Alert: '' @ desc,
                                    location_name =
                                      (case name data of
                                         None \<Rightarrow> ''Along your route''
                                       | Some n \<Rightarrow> n)\<rparr>])
                    else Inr [])))"

text \<open>One iteration with its \<^verbatim>\<open>except Exception\<close> clause, which only prints.\<close>

definition weather_step :: "point \<Rightarrow> weather_response \<Rightarrow> hazard list" where
  "weather_step pt response = (case weather_try pt response of Inl e \<Rightarrow> [] | Inr hs \<Rightarrow> hs)"

text \<open>The loop over \<^verbatim>\<open>points_to_check\<close>, with the requests made so far and the list
  \<^verbatim>\<open>weather_hazards\<close>; it returns both.\<close>

fun weather_loop ::
  "weather_service \<Rightarrow> point list \<Rightarrow> point list \<Rightarrow> hazard list \<Rightarrow> hazard list \<times> point list" where
  "weather_loop service [] requests weather_hazards = (weather_hazards, requests)"
| "weather_loop service (pt # rest) requests weather_hazards =
     weather_loop service rest (requests @ [pt])
       (weather_hazards @ weather_step pt (service requests pt))"

text \<open>
  \<open>key\<close> is \<^verbatim>\<open>OPENWEATHERMAP_API_KEY\<close>: \<open>None\<close> when the environment variable is
  unset; \<^verbatim>\<open>not key\<close> also holds for the empty string. Indexing an empty route raises
  \<^verbatim>\<open>IndexError\<close> on line 140, outside every \<^verbatim>\<open>try\<close>. The result is the hazards and
  the requests sent to the weather service.
\<close>

definition fetch_weather_alerts ::
  "string option \<Rightarrow> weather_service \<Rightarrow> point list \<Rightarrow> error + hazard list \<times> point list" where
  "fetch_weather_alerts key service route_points =
     (if key = None \<or> key = Some [] then Inr ([], [])
      else if route_points = [] then Inl IndexError
      else Inr (weather_loop service
                  [route_points ! 0, route_points ! (length route_points div 2), last route_points]
                  [] []))"

subsection \<open>Imagery layer (lines 159 to 164)\<close>

text \<open>\<open>date_today\<close> is \<^verbatim>\<open>datetime.date.today().isoformat()\<close>.\<close>

definition viirs_url :: "string \<Rightarrow> string" where
  "viirs_url date_today =
     ''https://gibs.earthdata.nasa.gov/wmts/epsg4326/best/VIIRS_SNPP_Thermal_Anomalies_375m_All/default/''
       @ date_today @ ''/250m/{z}/{y}/{x}.png''"

definition modis_url :: "string \<Rightarrow> string" where
  "modis_url date_today =
     ''https://gibs.earthdata.nasa.gov/wmts/epsg4326/best/MODIS_Terra_CorrectedReflectance_TrueColor/default/''
       @ date_today @ ''/250m/{z}/{y}/{x}.jpg''"

text \<open>\<^verbatim>\<open>hazard_type and (...)\<close>: \<open>None\<close> and the empty string are falsy.\<close>

definition get_satellite_url :: "string \<Rightarrow> string option \<Rightarrow> string" where
  "get_satellite_url date_today hazard_type =
     (case hazard_type of
        None \<Rightarrow> modis_url date_today
      | Some ht \<Rightarrow>
          if ht \<noteq> [] \<and> (str_in ''fire'' (lower ht) \<or> str_in ''wildfire'' (lower ht))
          then viirs_url date_today
          else modis_url date_today)"

subsection \<open>The endpoint after geocoding and routing (lines 204 to 219)\<close>

text \<open>Line 209, which the specification calls the aggregator.\<close>

definition aggregate :: "hazard list \<Rightarrow> hazard list \<Rightarrow> hazard list \<Rightarrow> hazard list" where
  "aggregate local_hazards gdacs_hazards weather_hazards =
     (local_hazards @ gdacs_hazards) @ weather_hazards"

record route_analysis =
  startName :: string
  endName :: string
  route :: "point list"
  hazards :: "hazard list"
  satelliteUrl :: string

text \<open>
  \<open>coordinates\<close> is the geometry of the first route of the routing service, each element
  \<^verbatim>\<open>[lon, lat]\<close>. An exception of \<^verbatim>\<open>fetch_weather_alerts\<close> is not caught by the
  endpoint.
\<close>

definition analyze_route ::
  "fpu \<Rightarrow> string \<Rightarrow> string \<Rightarrow> point list \<Rightarrow> gdacs_response \<Rightarrow> string option
     \<Rightarrow> weather_service \<Rightarrow> string \<Rightarrow> error + route_analysis" where
  "analyze_route fp start_name end_name coordinates gdacs key service date_today =
     (let route_points = map (\<lambda>p. (snd p, fst p)) coordinates;
          local_hazards = fetch_local_advisories end_name;
          gdacs_hazards = fetch_and_check_gdacs_alerts fp gdacs route_points
      in case fetch_weather_alerts key service route_points of
           Inl e \<Rightarrow> Inl e
         | Inr (weather_hazards, requests) \<Rightarrow>
             (let all_hazards = aggregate local_hazards gdacs_hazards weather_hazards;
                  satellite_url =
                    get_satellite_url date_today
                      (case all_hazards of [] \<Rightarrow> None | h # hs \<Rightarrow> Some (details h))
              in Inr \<lparr>startName = start_name, endName = end_name, route = route_points,
                       hazards = all_hazards, satelliteUrl = satellite_url\<rparr>))"


section \<open>Verification\<close>

subsection \<open>Strings: the substring test is the contiguous-sublist relation\<close>

lemma startswith_prefix: "startswith s sub = prefix sub s"
  by (induction s sub rule: startswith.induct) auto

lemma str_in_sublist: "str_in sub s = sublist sub s"
  by (induction s) (simp_all add: startswith_prefix sublist_Cons_right)

subsection \<open>The haversine formula in exact arithmetic\<close>

lemma exact_fpu_simps:
  "f_add exact_fpu = (\<lambda>x y. x + y)" "f_sub exact_fpu = (\<lambda>x y. x - y)"
  "f_mul exact_fpu = (\<lambda>x y. x * y)" "f_div exact_fpu = (\<lambda>x y. x / y)"
  "f_sqr exact_fpu = (\<lambda>x. x\<^sup>2)" "f_sin exact_fpu = sin" "f_cos exact_fpu = cos"
  "f_sqrt exact_fpu = sqrt" "f_atan2 exact_fpu = atan2" "f_radians exact_fpu = radians"
  by (simp_all add: exact_fpu_def)

lemma hav_a_exact:
  "hav_a exact_fpu lat1 lon1 lat2 lon2 =
     (sin (radians (lat2 - lat1) / 2))\<^sup>2
       + cos (radians lat1) * cos (radians lat2) * (sin (radians (lon2 - lon1) / 2))\<^sup>2"
  by (simp add: hav_a_def exact_fpu_simps)

text \<open>In any arithmetic the function is the two square roots and the arc tangent applied
  to the computed \<open>a\<close>.\<close>

lemma haversine_hav_a_any:
  "haversine fp lat1 lon1 lat2 lon2 =
     (case py_sqrt fp (hav_a fp lat1 lon1 lat2 lon2) of
        Inl e \<Rightarrow> Inl e
      | Inr sa \<Rightarrow>
          (case py_sqrt fp (f_sub fp 1 (hav_a fp lat1 lon1 lat2 lon2)) of
             Inl e \<Rightarrow> Inl e
           | Inr sb \<Rightarrow> Inr (f_mul fp 6371 (f_mul fp 2 (f_atan2 fp sa sb)))))"
  unfolding haversine_def hav_a_def Let_def by (rule refl)

lemma half_angle_identity:
  "(sin ((y - x) / 2))\<^sup>2 + cos x * cos y = (cos ((x + y) / 2))\<^sup>2" for x y :: real
proof -
  have "cos (2 * ((y - x) / 2)) = 1 - 2 * (sin ((y - x) / 2))\<^sup>2"
    by (rule cos_double_sin)
  moreover have "2 * ((y - x) / 2) = y - x" by simp
  ultimately have "cos (y - x) = 1 - 2 * (sin ((y - x) / 2))\<^sup>2" by (simp only:)
  then have s: "(sin ((y - x) / 2))\<^sup>2 = (1 - cos (y - x)) / 2" by simp
  have "cos (2 * ((x + y) / 2)) = 2 * (cos ((x + y) / 2))\<^sup>2 - 1"
    by (rule cos_double_cos)
  moreover have "2 * ((x + y) / 2) = x + y" by simp
  ultimately have "cos (x + y) = 2 * (cos ((x + y) / 2))\<^sup>2 - 1" by (simp only:)
  then have c: "(cos ((x + y) / 2))\<^sup>2 = (1 + cos (x + y)) / 2" by simp
  show ?thesis
    unfolding s c by (simp add: cos_add cos_diff field_simps)
qed

lemma convex_unit:
  fixes A B s :: real
  assumes "0 \<le> A" "A \<le> 1" "0 \<le> B" "B \<le> 1" "0 \<le> s" "s \<le> 1"
  shows "0 \<le> A + (B - A) * s \<and> A + (B - A) * s \<le> 1"
proof -
  have e1: "A + (B - A) * s = A * (1 - s) + B * s" by (simp add: algebra_simps)
  have "0 \<le> A * (1 - s)" "0 \<le> B * s" using assms by simp_all
  then have lo: "0 \<le> A + (B - A) * s" unfolding e1 by simp
  have e2: "1 - (A + (B - A) * s) = (1 - A) * (1 - s) + (1 - B) * s" by (simp add: algebra_simps)
  have "0 \<le> (1 - A) * (1 - s)" "0 \<le> (1 - B) * s" using assms by simp_all
  then have "0 \<le> 1 - (A + (B - A) * s)" unfolding e2 by simp
  with lo show ?thesis by simp
qed

lemma sin_sq_unit: "0 \<le> (sin (x::real))\<^sup>2 \<and> (sin x)\<^sup>2 \<le> 1"
  by (simp add: abs_square_le_1)

lemma cos_sq_unit: "0 \<le> (cos (x::real))\<^sup>2 \<and> (cos x)\<^sup>2 \<le> 1"
  by (simp add: abs_square_le_1)

text \<open>With \<open>A\<close> the squared sine of half the latitude difference, \<open>B\<close> the squared cosine
  of half the latitude sum and \<open>s\<close> the squared sine of half the longitude difference,
  \<open>a = (1 - s) * A + s * B\<close>: a mean of two numbers of the unit interval. This holds for
  all reals, also for latitudes outside \<open>[-90, 90]\<close>.\<close>

lemma hav_a_range:
  "0 \<le> hav_a exact_fpu lat1 lon1 lat2 lon2 \<and> hav_a exact_fpu lat1 lon1 lat2 lon2 \<le> 1"
proof -
  define A where "A = (sin ((radians lat2 - radians lat1) / 2))\<^sup>2"
  define B where "B = (cos ((radians lat1 + radians lat2) / 2))\<^sup>2"
  define s where "s = (sin (radians (lon2 - lon1) / 2))\<^sup>2"
  have r: "radians (lat2 - lat1) = radians lat2 - radians lat1"
    by (simp add: radians_def algebra_simps diff_divide_distrib)
  have "B - A = cos (radians lat1) * cos (radians lat2)"
    unfolding A_def B_def using half_angle_identity [of "radians lat2" "radians lat1"] by simp
  then have eq: "hav_a exact_fpu lat1 lon1 lat2 lon2 = A + (B - A) * s"
    by (simp add: hav_a_exact r A_def s_def)
  show ?thesis
    unfolding eq using convex_unit [of A B s] sin_sq_unit cos_sq_unit
    by (simp add: A_def B_def s_def)
qed

lemma haversine_hav_a:
  "haversine exact_fpu lat1 lon1 lat2 lon2 =
     Inr (6371 * (2 * atan2 (sqrt (hav_a exact_fpu lat1 lon1 lat2 lon2))
                            (sqrt (1 - hav_a exact_fpu lat1 lon1 lat2 lon2))))"
  using hav_a_range [of lat1 lon1 lat2 lon2]
  by (simp add: haversine_hav_a_any py_sqrt_def exact_fpu_simps)

lemma atan2_nonneg: "0 \<le> y \<Longrightarrow> 0 \<le> x \<Longrightarrow> 0 \<le> atan2 y x"
  by (simp add: atan2_def)

lemma haversine_returns: "\<exists>d. haversine exact_fpu lat1 lon1 lat2 lon2 = Inr d \<and> 0 \<le> d"
  using hav_a_range [of lat1 lon1 lat2 lon2]
  by (simp add: haversine_hav_a atan2_nonneg)

lemma hav_a_sym: "hav_a exact_fpu lat2 lon2 lat1 lon1 = hav_a exact_fpu lat1 lon1 lat2 lon2"
proof -
  have m: "(sin (radians (u - v) / 2))\<^sup>2 = (sin (radians (v - u) / 2))\<^sup>2" for u v
  proof -
    have "radians (u - v) / 2 = - (radians (v - u) / 2)"
      by (simp add: radians_def field_simps)
    then show ?thesis by (simp only: sin_minus power2_minus)
  qed
  show ?thesis
    unfolding hav_a_exact by (simp add: m [of lat1 lat2] m [of lon1 lon2] mult.commute)
qed

lemma haversine_same: "haversine exact_fpu lat lon lat lon = Inr 0"
  by (simp add: haversine_hav_a hav_a_exact radians_def atan2_def)

text \<open>Along the meridian from the equator, the formula returns the arc length: the
  distance from \<open>(0, 0)\<close> to \<open>(lat, 0)\<close> is \<open>6371 * radians lat\<close> for \<open>0 \<le> lat \<le> 180\<close>.\<close>

lemma haversine_meridian:
  assumes "0 \<le> lat" "lat \<le> 180"
  shows "haversine exact_fpu 0 0 lat 0 = Inr (6371 * radians lat)"
proof -
  define h where "h = radians lat / 2"
  have h0: "0 \<le> h" and h1: "h \<le> pi / 2"
    using assms by (simp_all add: h_def radians_def)
  have a: "hav_a exact_fpu 0 0 lat 0 = (sin h)\<^sup>2"
    by (simp add: hav_a_exact h_def radians_def)
  have sh: "0 \<le> sin h" using h0 h1 by (intro sin_ge_zero) (use pi_ge_zero in linarith)+
  have ch: "0 \<le> cos h" using h0 h1 by (intro cos_ge_zero) linarith+
  have s1: "sqrt ((sin h)\<^sup>2) = sin h" using sh by simp
  have "1 - (sin h)\<^sup>2 = (cos h)\<^sup>2" by (simp add: cos_squared_eq)
  then have s2: "sqrt (1 - (sin h)\<^sup>2) = cos h" using ch by simp
  have at: "atan2 (sin h) (cos h) = h"
  proof (cases "h = pi / 2")
    case True
    have "sin (pi / 2) = 1" "cos (pi / 2) = 0" by simp_all
    then show ?thesis unfolding True by (simp add: atan2_def)
  next
    case False
    then have lt: "h < pi / 2" using h1 by simp
    have "0 < cos h" using h0 lt by (intro cos_gt_zero_pi) linarith+
    moreover have "arctan (tan h) = h" using h0 lt by (intro arctan_tan) linarith+
    ultimately show ?thesis by (simp add: atan2_def tan_def)
  qed
  show ?thesis
    unfolding haversine_hav_a a s1 s2 at by (simp add: h_def)
qed

text \<open>At the antipodes \<open>(x, 0)\<close> and \<open>(-x, 180)\<close> the exact value of \<open>a\<close> is 1, the
  end of the domain of the second square root, and the distance is half the
  circumference.\<close>

lemma hav_a_antipodes: "hav_a exact_fpu x 0 (- x) 180 = 1"
proof -
  have "radians (- x - x) / 2 = - radians x" by (simp add: radians_def)
  then have s: "(sin (radians (- x - x) / 2))\<^sup>2 = (sin (radians x))\<^sup>2"
    by (simp only: sin_minus power2_minus)
  have r: "radians (180 - 0) / 2 = pi / 2" by (simp add: radians_def)
  have c: "cos (radians (- x)) = cos (radians x)" by (simp add: radians_def)
  show ?thesis
    unfolding hav_a_exact s r c by (simp add: power2_eq_square [symmetric])
qed

lemma haversine_antipodes: "haversine exact_fpu x 0 (- x) 180 = Inr (6371 * pi)"
  by (simp add: haversine_hav_a hav_a_antipodes atan2_def)

text \<open>An arithmetic that is exact but for its addition, which returns the sum plus
  \<open>2\<^sup>-\<^sup>5\<^sup>2\<close>, one unit in the last place of a float between 1 and 2: at these
  antipodes the computed \<open>a\<close> is \<open>1 + 2\<^sup>-\<^sup>5\<^sup>2\<close>, and the function raises.\<close>

lemma hav_a_antipodes_rounded_up:
  "hav_a (exact_fpu\<lparr>f_add := \<lambda>x y. x + y + 1 / 2 ^ 52\<rparr>) x 0 (- x) 180 = 1 + 1 / 2 ^ 52"
proof -
  have "hav_a (exact_fpu\<lparr>f_add := \<lambda>x y. x + y + 1 / 2 ^ 52\<rparr>) x 0 (- x) 180
      = hav_a exact_fpu x 0 (- x) 180 + 1 / 2 ^ 52"
    by (simp add: hav_a_def exact_fpu_simps)
  then show ?thesis by (simp only: hav_a_antipodes)
qed

lemma haversine_antipodes_rounded_up:
  "haversine (exact_fpu\<lparr>f_add := \<lambda>x y. x + y + 1 / 2 ^ 52\<rparr>) x 0 (- x) 180 = Inl ValueError"
proof -
  let ?fp = "exact_fpu\<lparr>f_add := \<lambda>x y. x + y + 1 / 2 ^ 52\<rparr>"
  have s: "f_sub ?fp = (\<lambda>x y. x - y)" by (simp add: exact_fpu_simps)
  show ?thesis
    unfolding haversine_hav_a_any [of ?fp] hav_a_antipodes_rounded_up s
    by (simp add: py_sqrt_def)
qed

text \<open>C6. In exact arithmetic the function is the haversine formula with radius 6371 and
  has the three properties: it always returns, the distance from a point to itself is 0,
  the distance is symmetric, and it lies between 0 and half the circumference. In the
  arithmetic of the machine the function does not always return: it raises
  \<^verbatim>\<open>ValueError\<close> exactly when the computed \<open>a\<close> is negative or the computed \<open>1 - a\<close>
  is, and no other exception; nothing in the code keeps a rounded \<open>a\<close> at or below 1.\<close>

theorem haversine_domain_error:
  "(haversine fp lat1 lon1 lat2 lon2 = Inl ValueError)
     = (hav_a fp lat1 lon1 lat2 lon2 < 0 \<or> f_sub fp 1 (hav_a fp lat1 lon1 lat2 lon2) < 0)
   \<and> (\<exists>d. haversine fp lat1 lon1 lat2 lon2 = Inr d)
     = (0 \<le> hav_a fp lat1 lon1 lat2 lon2 \<and> 0 \<le> f_sub fp 1 (hav_a fp lat1 lon1 lat2 lon2))
   \<and> haversine exact_fpu lat lon lat lon = Inr 0
   \<and> haversine exact_fpu lat2 lon2 lat1 lon1 = haversine exact_fpu lat1 lon1 lat2 lon2
   \<and> (\<exists>d. haversine exact_fpu lat1 lon1 lat2 lon2 = Inr d \<and> 0 \<le> d \<and> d \<le> 6371 * pi)"
proof (intro conjI)
  show "(haversine fp lat1 lon1 lat2 lon2 = Inl ValueError)
     = (hav_a fp lat1 lon1 lat2 lon2 < 0 \<or> f_sub fp 1 (hav_a fp lat1 lon1 lat2 lon2) < 0)"
    by (auto simp add: haversine_hav_a_any py_sqrt_def)
  show "(\<exists>d. haversine fp lat1 lon1 lat2 lon2 = Inr d)
     = (0 \<le> hav_a fp lat1 lon1 lat2 lon2 \<and> 0 \<le> f_sub fp 1 (hav_a fp lat1 lon1 lat2 lon2))"
    by (auto simp add: haversine_hav_a_any py_sqrt_def)
  show "haversine exact_fpu lat lon lat lon = Inr 0" by (rule haversine_same)
  show "haversine exact_fpu lat2 lon2 lat1 lon1 = haversine exact_fpu lat1 lon1 lat2 lon2"
    by (simp add: haversine_hav_a hav_a_sym)
  let ?a = "hav_a exact_fpu lat1 lon1 lat2 lon2"
  have r: "0 \<le> ?a \<and> ?a \<le> 1" by (rule hav_a_range)
  have up: "atan2 (sqrt ?a) (sqrt (1 - ?a)) \<le> pi / 2"
  proof (cases "0 < sqrt (1 - ?a)")
    case True
    then show ?thesis
      using arctan_ubound [of "sqrt ?a / sqrt (1 - ?a)"] by (simp add: atan2_def)
  next
    case False
    then have "sqrt (1 - ?a) = 0" using r by simp
    then show ?thesis by (simp add: atan2_def)
  qed
  have lo: "0 \<le> atan2 (sqrt ?a) (sqrt (1 - ?a))" using r by (simp add: atan2_nonneg)
  show "\<exists>d. haversine exact_fpu lat1 lon1 lat2 lon2 = Inr d \<and> 0 \<le> d \<and> d \<le> 6371 * pi"
    using up lo by (simp add: haversine_hav_a)
qed

text \<open>The points \<open>(0.08, 0)\<close> and \<open>(-0.08, 180)\<close>: half the circumference apart in exact
  arithmetic; with the sum rounded up by \<open>2\<^sup>-\<^sup>5\<^sup>2\<close>, as the machine rounds it at
  this input, the computed \<open>1 - a\<close> is negative and the function raises.\<close>

theorem haversine_domain_error_witness:
  "haversine exact_fpu 0.08 0 (- 0.08) 180 = Inr (6371 * pi)
   \<and> hav_a (exact_fpu\<lparr>f_add := \<lambda>x y. x + y + 1 / 2 ^ 52\<rparr>) 0.08 0 (- 0.08) 180 = 1 + 1 / 2 ^ 52
   \<and> haversine (exact_fpu\<lparr>f_add := \<lambda>x y. x + y + 1 / 2 ^ 52\<rparr>) 0.08 0 (- 0.08) 180
       = Inl ValueError"
proof -
  let ?fp = "exact_fpu\<lparr>f_add := \<lambda>x y. x + y + 1 / 2 ^ 52\<rparr>"
  have a: "hav_a ?fp 0.08 0 (- 0.08) 180 = 1 + 1 / 2 ^ 52"
    by (rule hav_a_antipodes_rounded_up)
  have s: "f_sub ?fp 1 (hav_a ?fp 0.08 0 (- 0.08) 180) < 0"
    unfolding a by (simp add: exact_fpu_simps)
  have "haversine ?fp 0.08 0 (- 0.08) 180 = Inl ValueError"
    using haversine_domain_error [of ?fp "0.08" 0 "- 0.08" 180] s by blast
  with a haversine_antipodes [of "0.08"] show ?thesis by (intro conjI)
qed

subsection \<open>Local advisories\<close>

text \<open>\<open>find\<close> returns the first element with the property: the elements before it do
  not have it.\<close>

lemma find_first_split:
  "(\<exists>ys x zs. xs = ys @ x # zs \<and> (\<forall>y \<in> set ys. \<not> P y) \<and> P x \<and> find P xs = Some x)
   \<or> ((\<forall>x \<in> set xs. \<not> P x) \<and> find P xs = None)"
proof (induction xs)
  case Nil
  show ?case by simp
next
  case (Cons a xs)
  show ?case
  proof (cases "P a")
    case True
    have "a # xs = [] @ a # xs \<and> (\<forall>y \<in> set []. \<not> P y) \<and> P a \<and> find P (a # xs) = Some a"
      using True by simp
    then show ?thesis by (intro disjI1 exI)
  next
    case False
    from Cons.IH show ?thesis
    proof (elim disjE exE conjE)
      fix ys x zs
      assume "xs = ys @ x # zs" "\<forall>y \<in> set ys. \<not> P y" "P x" "find P xs = Some x"
      then have "a # xs = (a # ys) @ x # zs \<and> (\<forall>y \<in> set (a # ys). \<not> P y) \<and> P x
          \<and> find P (a # xs) = Some x"
        using False by simp
      then show ?thesis by (intro disjI1 exI)
    next
      assume "\<forall>x \<in> set xs. \<not> P x" "find P xs = None"
      then have "(\<forall>x \<in> set (a # xs). \<not> P x) \<and> find P (a # xs) = None"
        using False by simp
      then show ?thesis by (rule disjI2)
    qed
  qed
qed

text \<open>What the loop computes, for any registry and any list built so far: it appends the
  advisory of the first item whose lower-cased key is a contiguous part of the lower-cased
  destination name, and nothing when there is no such item.\<close>

lemma advisory_loop_find:
  "advisory_loop reg nm acc =
     acc @ (case find (\<lambda>e. sublist (lower (fst e)) (lower nm)) reg of
              None \<Rightarrow> []
            | Some e \<Rightarrow> [snd e])"
  by (induction reg nm acc rule: advisory_loop.induct) (simp_all add: str_in_sublist)

text \<open>C2. For every destination name, \<open>fetch_local_advisories\<close> returns at most one
  record: the advisory of the first registry entry, in insertion order, whose key occurs
  case-insensitively as a contiguous part of the name (the key within the name); the
  entries before it do not match, and later entries are not looked at. When no key occurs
  in the name the result is the empty list.\<close>

theorem fetch_local_advisories_first_match:
  "length (fetch_local_advisories nm) \<le> 1
   \<and> fetch_local_advisories nm =
       (case find (\<lambda>e. sublist (lower (fst e)) (lower nm)) MOCK_LOCAL_ADVISORIES of
          None \<Rightarrow> []
        | Some e \<Rightarrow> [snd e])
   \<and> ((\<exists>before e after.
          MOCK_LOCAL_ADVISORIES = before @ e # after
          \<and> (\<forall>b \<in> set before. \<not> sublist (lower (fst b)) (lower nm))
          \<and> sublist (lower (fst e)) (lower nm)
          \<and> fetch_local_advisories nm = [snd e])
      \<or> ((\<forall>e \<in> set MOCK_LOCAL_ADVISORIES. \<not> sublist (lower (fst e)) (lower nm))
          \<and> fetch_local_advisories nm = []))"
proof -
  let ?P = "\<lambda>e. sublist (lower (fst e)) (lower nm)"
  have eq: "fetch_local_advisories nm =
       (case find ?P MOCK_LOCAL_ADVISORIES of None \<Rightarrow> [] | Some e \<Rightarrow> [snd e])"
    by (simp add: fetch_local_advisories_def advisory_loop_find)
  have len: "length (fetch_local_advisories nm) \<le> 1"
    unfolding eq by (simp split: option.split)
  have "(\<exists>before e after.
          MOCK_LOCAL_ADVISORIES = before @ e # after
          \<and> (\<forall>b \<in> set before. \<not> ?P b) \<and> ?P e \<and> fetch_local_advisories nm = [snd e])
      \<or> ((\<forall>e \<in> set MOCK_LOCAL_ADVISORIES. \<not> ?P e) \<and> fetch_local_advisories nm = [])"
    using find_first_split [of MOCK_LOCAL_ADVISORIES ?P]
  proof (elim disjE exE conjE)
    fix ys x zs
    assume "MOCK_LOCAL_ADVISORIES = ys @ x # zs" "\<forall>y \<in> set ys. \<not> ?P y" "?P x"
      "find ?P MOCK_LOCAL_ADVISORIES = Some x"
    then have "MOCK_LOCAL_ADVISORIES = ys @ x # zs \<and> (\<forall>b \<in> set ys. \<not> ?P b) \<and> ?P x
        \<and> fetch_local_advisories nm = [snd x]"
      by (simp add: eq)
    then show ?thesis by (intro disjI1 exI)
  next
    assume "\<forall>x \<in> set MOCK_LOCAL_ADVISORIES. \<not> ?P x" "find ?P MOCK_LOCAL_ADVISORIES = None"
    then have "(\<forall>e \<in> set MOCK_LOCAL_ADVISORIES. \<not> ?P e) \<and> fetch_local_advisories nm = []"
      by (simp add: eq)
    then show ?thesis by (rule disjI2)
  qed
  with len eq show ?thesis by (intro conjI)
qed

text \<open>Evaluations of the matcher.\<close>

lemma fetch_local_kufri:
  "fetch_local_advisories ''Manali near KUFRI, Himachal Pradesh'' = [snd (MOCK_LOCAL_ADVISORIES ! 0)]"
  by code_simp

lemma fetch_local_shimla:
  "fetch_local_advisories ''Shimla District'' = [snd (MOCK_LOCAL_ADVISORIES ! 1)]"
  by code_simp

lemma fetch_local_none:
  "fetch_local_advisories ''Kuf'' = [] \<and> fetch_local_advisories ''Nagpur'' = []"
  by code_simp

text \<open>In \<open>Manali near KUFRI, Himachal Pradesh\<close> the keys \<open>Kufri\<close> (entry 0) and
  \<open>Himachal Pradesh\<close> (entry 2) both occur; the result is the advisory of entry 0 alone.
  The name \<open>Kuf\<close> is part of a key but contains none, and matches nothing.\<close>

theorem fetch_local_advisories_first_match_witness:
  "sublist (lower ''Kufri'') (lower ''Manali near KUFRI, Himachal Pradesh'')
   \<and> sublist (lower ''Himachal Pradesh'') (lower ''Manali near KUFRI, Himachal Pradesh'')
   \<and> fst (MOCK_LOCAL_ADVISORIES ! 0) = ''Kufri''
   \<and> fst (MOCK_LOCAL_ADVISORIES ! 2) = ''Himachal Pradesh''
   \<and> fetch_local_advisories ''Manali near KUFRI, Himachal Pradesh''
       = [snd (MOCK_LOCAL_ADVISORIES ! 0)]
   \<and> length (fetch_local_advisories ''Manali near KUFRI, Himachal Pradesh'') \<le> 1
   \<and> fetch_local_advisories ''Kuf'' = []"
proof -
  let ?nm = "''Manali near KUFRI, Himachal Pradesh''"
  have m1: "sublist (lower ''Kufri'') (lower ?nm)"
    by code_simp
  have m2: "sublist (lower ''Himachal Pradesh'') (lower ?nm)"
    by code_simp
  have k: "fst (MOCK_LOCAL_ADVISORIES ! 0) = ''Kufri''"
    "fst (MOCK_LOCAL_ADVISORIES ! 2) = ''Himachal Pradesh''"
    by code_simp+
  have f1: "find (\<lambda>e. sublist (lower (fst e)) (lower ?nm)) MOCK_LOCAL_ADVISORIES
      = Some (MOCK_LOCAL_ADVISORIES ! 0)"
    by code_simp
  have f2: "find (\<lambda>e. sublist (lower (fst e)) (lower ''Kuf'')) MOCK_LOCAL_ADVISORIES = None"
    by code_simp
  have r1: "fetch_local_advisories ?nm = [snd (MOCK_LOCAL_ADVISORIES ! 0)]
      \<and> length (fetch_local_advisories ?nm) \<le> 1"
    using fetch_local_advisories_first_match [of ?nm] by (simp only: f1 option.case) simp
  have r2: "fetch_local_advisories ''Kuf'' = []"
    using fetch_local_advisories_first_match [of "''Kuf''"] by (simp only: f2 option.case)
  from m1 m2 k r1 r2 show ?thesis by (intro conjI) simp_all
qed

subsection \<open>Disaster alerts\<close>

text \<open>The scan of the route for one entry, in any arithmetic: it leaves the list as it
  was, or it appends the one record of the entry, and then some route point was computed
  to be closer than 50.\<close>

lemma route_loop_cases:
  "fst (route_loop fp route_points lat lon ttl dh) = dh
   \<or> (route_loop fp route_points lat lon ttl dh =
         (dh @ [\<lparr>coords = (lat, lon), details = ttl, location_name = ''Near your route''\<rparr>], None)
       \<and> (\<exists>rp \<in> set route_points. \<exists>d. haversine fp (fst rp) (snd rp) lat lon = Inr d \<and> d < 50))"
proof (induction route_points)
  case Nil
  show ?case by simp
next
  case (Cons rp rest)
  show ?case
  proof (cases "haversine fp (fst rp) (snd rp) lat lon")
    case (Inl e)
    then show ?thesis by simp
  next
    case (Inr d)
    show ?thesis
    proof (cases "d < 50")
      case True
      then show ?thesis using Inr by simp
    next
      case False
      then have "route_loop fp (rp # rest) lat lon ttl dh = route_loop fp rest lat lon ttl dh"
        using Inr by simp
      then show ?thesis using Cons.IH by auto
    qed
  qed
qed

lemma route_loop_far:
  assumes "\<forall>rp \<in> set route_points. \<forall>d. haversine fp (fst rp) (snd rp) lat lon = Inr d \<longrightarrow> 50 \<le> d"
  shows "fst (route_loop fp route_points lat lon ttl dh) = dh"
proof -
  from assms have "\<not> (\<exists>rp \<in> set route_points. \<exists>d.
      haversine fp (fst rp) (snd rp) lat lon = Inr d \<and> d < 50)"
    by fastforce
  then show ?thesis using route_loop_cases [of fp route_points lat lon ttl dh] by blast
qed

text \<open>When every distance of the scan is returned, the scan ends without an exception.\<close>

lemma route_loop_result:
  assumes "\<forall>rp \<in> set route_points. \<exists>d. haversine fp (fst rp) (snd rp) lat lon = Inr d"
  shows "route_loop fp route_points lat lon ttl dh =
     (if \<exists>rp \<in> set route_points. \<exists>d. haversine fp (fst rp) (snd rp) lat lon = Inr d \<and> d < 50
      then dh @ [\<lparr>coords = (lat, lon), details = ttl, location_name = ''Near your route''\<rparr>]
      else dh,
      None)"
  using assms
proof (induction route_points)
  case Nil
  show ?case by simp
next
  case (Cons rp rest)
  from Cons.prems obtain d where d: "haversine fp (fst rp) (snd rp) lat lon = Inr d"
    by auto
  from Cons.prems have rest: "\<forall>rp \<in> set rest. \<exists>d. haversine fp (fst rp) (snd rp) lat lon = Inr d"
    by simp
  show ?case
  proof (cases "d < 50")
    case True
    then show ?thesis using d by simp
  next
    case False
    then show ?thesis using d Cons.IH [OF rest] by simp
  qed
qed

text \<open>An exception of the first distance ends the scan of the route with the list as it
  was.\<close>

lemma route_loop_raises:
  "haversine fp (fst rp) (snd rp) lat lon = Inl e \<Longrightarrow>
   route_loop fp (rp # rest) lat lon ttl dh = (dh, Some e)"
  by simp

text \<open>A feed whose entries have a title and no unreadable point, scanned in an arithmetic
  that returns every distance asked for.\<close>

lemma item_loop_well_formed:
  assumes "\<forall>item \<in> set items. title item \<noteq> None \<and> (\<forall>e. georss_point item \<noteq> Malformed e)"
    and "\<forall>item \<in> set items. \<forall>lat lon. georss_point item = Parsed lat lon \<longrightarrow>
           (\<forall>rp \<in> set route_points. \<exists>d. haversine fp (fst rp) (snd rp) lat lon = Inr d)"
  shows "item_loop fp route_points items dh =
     (dh @ concat (map (\<lambda>item.
        case georss_point item of
          Parsed lat lon \<Rightarrow>
            if \<exists>rp \<in> set route_points. \<exists>d. haversine fp (fst rp) (snd rp) lat lon = Inr d \<and> d < 50
            then [\<lparr>coords = (lat, lon), details = the (title item),
                   location_name = ''Near your route''\<rparr>]
            else []
        | _ \<Rightarrow> []) items),
      None)"
  using assms
proof (induction items arbitrary: dh)
  case Nil
  show ?case by simp
next
  case (Cons item rest)
  from Cons.prems(1) obtain ttl where t: "title item = Some ttl" by auto
  from Cons.prems(1) have wf: "\<forall>e. georss_point item \<noteq> Malformed e" by simp
  from Cons.prems(1) have r1: "\<forall>item \<in> set rest. title item \<noteq> None \<and> (\<forall>e. georss_point item \<noteq> Malformed e)"
    by simp
  from Cons.prems(2) have r2: "\<forall>item \<in> set rest. \<forall>lat lon. georss_point item = Parsed lat lon \<longrightarrow>
           (\<forall>rp \<in> set route_points. \<exists>d. haversine fp (fst rp) (snd rp) lat lon = Inr d)"
    by simp
  note IH = Cons.IH [OF r1 r2]
  show ?case
  proof (cases "georss_point item")
    case Absent
    then show ?thesis using t IH by simp
  next
    case (Malformed e)
    then show ?thesis using wf by simp
  next
    case (Parsed lat lon)
    then have "\<forall>rp \<in> set route_points. \<exists>d. haversine fp (fst rp) (snd rp) lat lon = Inr d"
      using Cons.prems(2) by simp
    note rl = route_loop_result [OF this, of ttl dh]
    show ?thesis
      unfolding item_loop.simps t option.case Parsed point_elem.case rl prod.case
      by (simp add: IH t Parsed)
  qed
qed

text \<open>Whatever the feed and the arithmetic, also when the scan stops with an exception:
  a record of the result was in the list before, or was computed to lie closer than 50 to
  a route point.\<close>

lemma item_loop_near:
  assumes "h \<in> set (fst (item_loop fp route_points items dh))"
  shows "h \<in> set dh
     \<or> (\<exists>rp \<in> set route_points. \<exists>d.
           haversine fp (fst rp) (snd rp) (fst (coords h)) (snd (coords h)) = Inr d \<and> d < 50)"
  using assms
proof (induction items arbitrary: dh)
  case Nil
  then show ?case by simp
next
  case (Cons item rest)
  show ?case
  proof (cases "title item")
    case None
    then show ?thesis using Cons.prems by simp
  next
    case (Some ttl)
    show ?thesis
    proof (cases "georss_point item")
      case Absent
      then show ?thesis using Cons.prems Cons.IH [of dh] Some by simp
    next
      case (Malformed e)
      then show ?thesis using Cons.prems Some by simp
    next
      case (Parsed lat lon)
      let ?rec = "\<lparr>coords = (lat, lon), details = ttl, location_name = ''Near your route''\<rparr>"
      obtain dh' st where rl: "route_loop fp route_points lat lon ttl dh = (dh', st)"
        by (cases "route_loop fp route_points lat lon ttl dh")
      have sub: "h \<in> set dh' \<Longrightarrow> ?thesis"
      proof -
        assume h: "h \<in> set dh'"
        from route_loop_cases [of fp route_points lat lon ttl dh] show ?thesis
        proof
          assume "fst (route_loop fp route_points lat lon ttl dh) = dh"
          then show ?thesis using rl h by simp
        next
          assume "route_loop fp route_points lat lon ttl dh = (dh @ [?rec], None)
            \<and> (\<exists>rp \<in> set route_points. \<exists>d. haversine fp (fst rp) (snd rp) lat lon = Inr d \<and> d < 50)"
          then show ?thesis using rl h by auto
        qed
      qed
      show ?thesis
      proof (cases st)
        case None
        then have "item_loop fp route_points (item # rest) dh = item_loop fp route_points rest dh'"
          using Some Parsed rl by simp
        then have "h \<in> set (fst (item_loop fp route_points rest dh'))"
          using Cons.prems by simp
        from Cons.IH [OF this] show ?thesis using sub by blast
      next
        case (Some e)
        then have "item_loop fp route_points (item # rest) dh = (dh', Some e)"
          using \<open>title item = Some ttl\<close> Parsed rl by simp
        then have "h \<in> set dh'" using Cons.prems by simp
        then show ?thesis by (rule sub)
      qed
    qed
  qed
qed

text \<open>Distances used in the examples. In exact arithmetic the pole is a quarter of the
  circumference from \<open>(0, 0)\<close>. In an arithmetic that is exact but for an arc tangent
  returning \<open>25 / 6371\<close>, every computed distance is exactly 50.\<close>

lemma haversine_pole: "haversine exact_fpu 0 0 90 0 = Inr (6371 * pi / 2)"
  using haversine_meridian [of 90] by (simp add: radians_def)

lemma haversine_pole_rev: "haversine exact_fpu 90 0 0 0 = Inr (6371 * pi / 2)"
  using haversine_pole by (simp add: haversine_hav_a hav_a_sym [of 90 0 0 0])

lemma pole_is_far: "\<not> 6371 * pi / 2 < 50"
  using pi_ge_two by simp

lemma haversine_computed_50:
  "haversine (exact_fpu\<lparr>f_atan2 := \<lambda>y x. 25 / 6371\<rparr>) lat1 lon1 lat2 lon2 = Inr 50"
proof -
  let ?fp = "exact_fpu\<lparr>f_atan2 := \<lambda>y x. 25 / 6371\<rparr>"
  have a: "hav_a ?fp lat1 lon1 lat2 lon2 = hav_a exact_fpu lat1 lon1 lat2 lon2"
    by (simp add: hav_a_def exact_fpu_simps)
  have s: "f_sub ?fp = (\<lambda>x y. x - y)" "f_mul ?fp = (\<lambda>x y. x * y)"
    "f_atan2 ?fp = (\<lambda>y x. 25 / 6371)"
    by (simp_all add: exact_fpu_simps)
  show ?thesis
    unfolding haversine_hav_a_any [of ?fp] a s
    using hav_a_range [of lat1 lon1 lat2 lon2] by (simp add: py_sqrt_def)
qed

text \<open>C3. The proximity test is strict, in any arithmetic. When the distance computed from
  an entry's point to each route point is 50 or more (exactly 50 included) wherever it is
  returned, the scan of the route adds no record for the entry, and no record of the
  result carries its point. Whatever the feed, every record of the result was computed to
  lie strictly closer than 50 to some route point.\<close>

theorem gdacs_threshold_strict:
  "((\<forall>rp \<in> set route_points. \<forall>d. haversine fp (fst rp) (snd rp) lat lon = Inr d \<longrightarrow> 50 \<le> d)
     \<longrightarrow> fst (route_loop fp route_points lat lon ttl dh) = dh
         \<and> (\<forall>r \<in> set (fetch_and_check_gdacs_alerts fp response route_points).
               coords r \<noteq> (lat, lon)))
   \<and> (h \<in> set (fetch_and_check_gdacs_alerts fp response route_points)
     \<longrightarrow> (\<exists>rp \<in> set route_points. \<exists>d.
            haversine fp (fst rp) (snd rp) (fst (coords h)) (snd (coords h)) = Inr d \<and> d < 50))"
proof -
  have near: "\<exists>rp \<in> set route_points. \<exists>d.
      haversine fp (fst rp) (snd rp) (fst (coords r)) (snd (coords r)) = Inr d \<and> d < 50"
    if r: "r \<in> set (fetch_and_check_gdacs_alerts fp response route_points)" for r
  proof (cases response)
    case (Inl e)
    then show ?thesis using r by (simp add: fetch_and_check_gdacs_alerts_def)
  next
    case (Inr items)
    then have "r \<in> set (fst (item_loop fp route_points items []))"
      using r by (simp add: fetch_and_check_gdacs_alerts_def)
    from item_loop_near [OF this] show ?thesis by simp
  qed
  have far: "fst (route_loop fp route_points lat lon ttl dh) = dh
         \<and> (\<forall>r \<in> set (fetch_and_check_gdacs_alerts fp response route_points).
               coords r \<noteq> (lat, lon))"
    if f: "\<forall>rp \<in> set route_points. \<forall>d. haversine fp (fst rp) (snd rp) lat lon = Inr d \<longrightarrow> 50 \<le> d"
  proof
    show "fst (route_loop fp route_points lat lon ttl dh) = dh"
      using f by (rule route_loop_far)
    show "\<forall>r \<in> set (fetch_and_check_gdacs_alerts fp response route_points). coords r \<noteq> (lat, lon)"
    proof
      fix r
      assume "r \<in> set (fetch_and_check_gdacs_alerts fp response route_points)"
      from near [OF this] obtain rp d where
        "rp \<in> set route_points"
        "haversine fp (fst rp) (snd rp) (fst (coords r)) (snd (coords r)) = Inr d" "d < 50"
        by blast
      then show "coords r \<noteq> (lat, lon)" using f by fastforce
    qed
  qed
  from far near show ?thesis by blast
qed

text \<open>Three scans of the route \<open>[(0, 0)]\<close>. An entry at the pole, in exact arithmetic: not
  reported. An entry at \<open>(0.45, 0)\<close> in an arithmetic that computes its distance as
  exactly 50: not reported. An entry at \<open>(0, 0)\<close>, in exact arithmetic: reported, at the
  computed distance 0.\<close>

theorem gdacs_threshold_strict_witness:
  "haversine exact_fpu 0 0 90 0 = Inr (6371 * pi / 2) \<and> 50 \<le> 6371 * pi / 2
   \<and> fetch_and_check_gdacs_alerts exact_fpu
        (Inr [\<lparr>title = Some ''Flood'', georss_point = Parsed 90 0\<rparr>]) [(0, 0)] = []
   \<and> haversine (exact_fpu\<lparr>f_atan2 := \<lambda>y x. 25 / 6371\<rparr>) 0 0 0.45 0 = Inr 50
   \<and> fst (route_loop (exact_fpu\<lparr>f_atan2 := \<lambda>y x. 25 / 6371\<rparr>) [(0, 0)] 0.45 0 ''Flood'' []) = []
   \<and> fetch_and_check_gdacs_alerts (exact_fpu\<lparr>f_atan2 := \<lambda>y x. 25 / 6371\<rparr>)
        (Inr [\<lparr>title = Some ''Flood'', georss_point = Parsed 0.45 0\<rparr>]) [(0, 0)] = []
   \<and> fetch_and_check_gdacs_alerts exact_fpu
        (Inr [\<lparr>title = Some ''Flood'', georss_point = Parsed 0 0\<rparr>]) [(0, 0)]
       = [\<lparr>coords = (0, 0), details = ''Flood'', location_name = ''Near your route''\<rparr>]
   \<and> (\<exists>rp \<in> set [(0, 0)]. \<exists>d. haversine exact_fpu (fst rp) (snd rp) 0 0 = Inr d \<and> d < 50)"
proof -
  let ?fp50 = "exact_fpu\<lparr>f_atan2 := \<lambda>y x. 25 / 6371\<rparr>"
  let ?rec = "\<lparr>coords = (0, 0), details = ''Flood'', location_name = ''Near your route''\<rparr>"
  let ?pole = "Inr [\<lparr>title = Some ''Flood'', georss_point = Parsed 90 0\<rparr>] :: gdacs_response"
  let ?edge = "Inr [\<lparr>title = Some ''Flood'', georss_point = Parsed 0.45 0\<rparr>] :: gdacs_response"
  let ?here = "Inr [\<lparr>title = Some ''Flood'', georss_point = Parsed 0 0\<rparr>] :: gdacs_response"
  have far: "50 \<le> 6371 * pi / 2" using pole_is_far by simp
  \<comment> \<open>The pole, exact arithmetic.\<close>
  have hyp1: "\<forall>rp \<in> set [(0, 0)]. \<forall>d. haversine exact_fpu (fst rp) (snd rp) 90 0 = Inr d \<longrightarrow> 50 \<le> d"
    using far by (simp add: haversine_pole)
  have p1: "fetch_and_check_gdacs_alerts exact_fpu ?pole [(0, 0)]
      = [\<lparr>coords = (90, 0), details = ''Flood'', location_name = ''Near your route''\<rparr>]
     \<or> fetch_and_check_gdacs_alerts exact_fpu ?pole [(0, 0)] = []"
    by (simp add: fetch_and_check_gdacs_alerts_def haversine_pole)
  have n1: "\<forall>r \<in> set (fetch_and_check_gdacs_alerts exact_fpu ?pole [(0, 0)]). coords r \<noteq> (90, 0)"
    using gdacs_threshold_strict [of "[(0, 0)]" exact_fpu 90 0 _ _ ?pole] hyp1 by blast
  have r1: "fetch_and_check_gdacs_alerts exact_fpu ?pole [(0, 0)] = []"
    using p1 n1 by auto
  \<comment> \<open>A computed distance of exactly 50.\<close>
  have d50: "haversine ?fp50 0 0 0.45 0 = Inr 50" by (rule haversine_computed_50)
  have hyp2: "\<forall>rp \<in> set [(0, 0)]. \<forall>d. haversine ?fp50 (fst rp) (snd rp) 0.45 0 = Inr d \<longrightarrow> 50 \<le> d"
    by (simp add: haversine_computed_50)
  have far2: "fst (route_loop ?fp50 [(0, 0)] 0.45 0 ''Flood'' []) = []
      \<and> (\<forall>r \<in> set (fetch_and_check_gdacs_alerts ?fp50 ?edge [(0, 0)]). coords r \<noteq> (0.45, 0))"
    using gdacs_threshold_strict [of "[(0, 0)]" ?fp50 "0.45" 0 "''Flood''" "[]" ?edge] hyp2
    by blast
  have r2: "fetch_and_check_gdacs_alerts ?fp50 ?edge [(0, 0)] = []"
    by (simp add: fetch_and_check_gdacs_alerts_def haversine_computed_50)
  \<comment> \<open>The route point itself, exact arithmetic.\<close>
  have r3: "fetch_and_check_gdacs_alerts exact_fpu ?here [(0, 0)] = [?rec]"
    by (simp add: fetch_and_check_gdacs_alerts_def haversine_same)
  have "?rec \<in> set (fetch_and_check_gdacs_alerts exact_fpu ?here [(0, 0)])"
    by (simp add: r3)
  then have r4: "\<exists>rp \<in> set [(0, 0)]. \<exists>d. haversine exact_fpu (fst rp) (snd rp) 0 0 = Inr d \<and> d < 50"
    using gdacs_threshold_strict [of "[(0, 0)]" exact_fpu _ _ _ _ ?here ?rec]
    by simp
  from haversine_pole far r1 d50 far2 r2 r3 r4 show ?thesis by (intro conjI) simp_all
qed

text \<open>The scan of the route ends at the first route point computed to be close enough:
  the points after it are not looked at, whatever their distance would be.\<close>

lemma route_loop_first_match:
  assumes "haversine fp (fst rp) (snd rp) lat lon = Inr d" and "d < 50"
    and "\<forall>q \<in> set before. \<exists>d. haversine fp (fst q) (snd q) lat lon = Inr d"
  shows "route_loop fp (before @ rp # after) lat lon ttl dh =
     (dh @ [\<lparr>coords = (lat, lon), details = ttl, location_name = ''Near your route''\<rparr>], None)"
  using assms(3)
proof (induction before)
  case Nil
  show ?case using assms(1,2) by simp
next
  case (Cons q rest)
  from Cons.prems obtain dq where dq: "haversine fp (fst q) (snd q) lat lon = Inr dq" by auto
  from Cons.prems have "\<forall>q \<in> set rest. \<exists>d. haversine fp (fst q) (snd q) lat lon = Inr d" by simp
  from Cons.IH [OF this] show ?case using dq by simp
qed

text \<open>C7. For a feed whose entries all have a title and no unreadable point, and as long
  as every distance asked for is returned, the result is, entry by entry in feed order:
  nothing for an entry without a point; for an entry with a point, the one record with that
  point, the entry's title and the label \<open>Near your route\<close> if some route point is
  computed to be strictly closer than 50, and nothing otherwise; the scan of the route
  ends at the first such route point. But when the distance from the first route point to
  the first entry raises, the exception is caught on line 129 and the result is empty,
  whatever entries follow.\<close>

theorem gdacs_correlation:
  "((\<forall>item \<in> set items. title item \<noteq> None \<and> (\<forall>e. georss_point item \<noteq> Malformed e))
      \<and> (\<forall>item \<in> set items. \<forall>lat lon. georss_point item = Parsed lat lon \<longrightarrow>
            (\<forall>rp \<in> set route_points. \<exists>d. haversine fp (fst rp) (snd rp) lat lon = Inr d))
     \<longrightarrow> fetch_and_check_gdacs_alerts fp (Inr items) route_points =
          concat (map (\<lambda>item.
            case georss_point item of
              Parsed lat lon \<Rightarrow>
                if \<exists>rp \<in> set route_points. \<exists>d.
                     haversine fp (fst rp) (snd rp) lat lon = Inr d \<and> d < 50
                then [\<lparr>coords = (lat, lon), details = the (title item),
                       location_name = ''Near your route''\<rparr>]
                else []
            | _ \<Rightarrow> []) items))
   \<and> (haversine fp (fst rp) (snd rp) lat lon = Inr d \<and> d < 50
        \<and> (\<forall>q \<in> set before. \<exists>d. haversine fp (fst q) (snd q) lat lon = Inr d)
     \<longrightarrow> route_loop fp (before @ rp # after) lat lon ttl dh =
          (dh @ [\<lparr>coords = (lat, lon), details = ttl, location_name = ''Near your route''\<rparr>],
           None))
   \<and> (title item = Some ttl \<and> georss_point item = Parsed lat lon
        \<and> haversine fp (fst rp) (snd rp) lat lon = Inl e
     \<longrightarrow> fetch_and_check_gdacs_alerts fp (Inr (item # rest)) (rp # after) = [])"
proof (intro conjI impI)
  assume a: "(\<forall>item \<in> set items. title item \<noteq> None \<and> (\<forall>e. georss_point item \<noteq> Malformed e))
      \<and> (\<forall>item \<in> set items. \<forall>lat lon. georss_point item = Parsed lat lon \<longrightarrow>
            (\<forall>rp \<in> set route_points. \<exists>d. haversine fp (fst rp) (snd rp) lat lon = Inr d))"
  then have wf: "\<forall>item \<in> set items. title item \<noteq> None \<and> (\<forall>e. georss_point item \<noteq> Malformed e)"
    and ret: "\<forall>item \<in> set items. \<forall>lat lon. georss_point item = Parsed lat lon \<longrightarrow>
            (\<forall>rp \<in> set route_points. \<exists>d. haversine fp (fst rp) (snd rp) lat lon = Inr d)"
    by blast+
  show "fetch_and_check_gdacs_alerts fp (Inr items) route_points =
          concat (map (\<lambda>item.
            case georss_point item of
              Parsed lat lon \<Rightarrow>
                if \<exists>rp \<in> set route_points. \<exists>d.
                     haversine fp (fst rp) (snd rp) lat lon = Inr d \<and> d < 50
                then [\<lparr>coords = (lat, lon), details = the (title item),
                       location_name = ''Near your route''\<rparr>]
                else []
            | _ \<Rightarrow> []) items)"
    by (simp add: fetch_and_check_gdacs_alerts_def item_loop_well_formed [OF wf ret])
next
  assume "haversine fp (fst rp) (snd rp) lat lon = Inr d \<and> d < 50
        \<and> (\<forall>q \<in> set before. \<exists>d. haversine fp (fst q) (snd q) lat lon = Inr d)"
  then show "route_loop fp (before @ rp # after) lat lon ttl dh =
          (dh @ [\<lparr>coords = (lat, lon), details = ttl, location_name = ''Near your route''\<rparr>],
           None)"
    using route_loop_first_match [of fp rp lat lon d before after ttl dh] by blast
next
  assume "title item = Some ttl \<and> georss_point item = Parsed lat lon
        \<and> haversine fp (fst rp) (snd rp) lat lon = Inl e"
  then show "fetch_and_check_gdacs_alerts fp (Inr (item # rest)) (rp # after) = []"
    by (simp add: fetch_and_check_gdacs_alerts_def)
qed

text \<open>In exact arithmetic: a route from \<open>(0, 0)\<close> to the pole and a feed of three entries,
  one without a point, one at the pole (close to the second route point only), one at
  \<open>(0, 0)\<close>; the records come in feed order, one per entry with a point. With the sum
  rounded up by \<open>2\<^sup>-\<^sup>5\<^sup>2\<close>: the route \<open>[(0.08, 0)]\<close> and a feed of an entry at the
  antipode \<open>(-0.08, 180)\<close> followed by an entry on the route; the distance to the first
  entry raises and the entry on the route is not reported, which exact arithmetic
  reports.\<close>

theorem gdacs_correlation_witness:
  "fetch_and_check_gdacs_alerts exact_fpu
     (Inr [\<lparr>title = Some ''Drought'', georss_point = Absent\<rparr>,
           \<lparr>title = Some ''Cyclone'', georss_point = Parsed 90 0\<rparr>,
           \<lparr>title = Some ''Flood'', georss_point = Parsed 0 0\<rparr>])
     [(0, 0), (90, 0)]
     = [\<lparr>coords = (90, 0), details = ''Cyclone'', location_name = ''Near your route''\<rparr>,
        \<lparr>coords = (0, 0), details = ''Flood'', location_name = ''Near your route''\<rparr>]
   \<and> route_loop exact_fpu ([(90, 0)] @ (0, 0) # [(0, 0), (90, 0)]) 0 0 ''Flood'' []
       = ([\<lparr>coords = (0, 0), details = ''Flood'', location_name = ''Near your route''\<rparr>], None)
   \<and> haversine (exact_fpu\<lparr>f_add := \<lambda>x y. x + y + 1 / 2 ^ 52\<rparr>) 0.08 0 (- 0.08) 180
       = Inl ValueError
   \<and> fetch_and_check_gdacs_alerts (exact_fpu\<lparr>f_add := \<lambda>x y. x + y + 1 / 2 ^ 52\<rparr>)
       (Inr [\<lparr>title = Some ''Quake'', georss_point = Parsed (- 0.08) 180\<rparr>,
             \<lparr>title = Some ''Flood'', georss_point = Parsed 0.08 0\<rparr>])
       [(0.08, 0)] = []
   \<and> fetch_and_check_gdacs_alerts exact_fpu
       (Inr [\<lparr>title = Some ''Quake'', georss_point = Parsed (- 0.08) 180\<rparr>,
             \<lparr>title = Some ''Flood'', georss_point = Parsed 0.08 0\<rparr>])
       [(0.08, 0)]
       = [\<lparr>coords = (0.08, 0), details = ''Flood'', location_name = ''Near your route''\<rparr>]"
proof -
  let ?up = "exact_fpu\<lparr>f_add := \<lambda>x y. x + y + 1 / 2 ^ 52\<rparr>"
  let ?items = "[\<lparr>title = Some ''Drought'', georss_point = Absent\<rparr>,
           \<lparr>title = Some ''Cyclone'', georss_point = Parsed 90 0\<rparr>,
           \<lparr>title = Some ''Flood'', georss_point = Parsed 0 0\<rparr>]"
  let ?quake = "\<lparr>title = Some ''Quake'', georss_point = Parsed (- 0.08) 180\<rparr>"
  let ?flood = "\<lparr>title = Some ''Flood'', georss_point = Parsed 0.08 0\<rparr>"
  have wf: "(\<forall>item \<in> set ?items. title item \<noteq> None \<and> (\<forall>e. georss_point item \<noteq> Malformed e))
      \<and> (\<forall>item \<in> set ?items. \<forall>lat lon. georss_point item = Parsed lat lon \<longrightarrow>
            (\<forall>rp \<in> set [(0, 0), (90, 0)]. \<exists>d. haversine exact_fpu (fst rp) (snd rp) lat lon = Inr d))"
    by (simp add: haversine_hav_a)
  have "fetch_and_check_gdacs_alerts exact_fpu (Inr ?items) [(0, 0), (90, 0)] =
          concat (map (\<lambda>item.
            case georss_point item of
              Parsed lat lon \<Rightarrow>
                if \<exists>rp \<in> set [(0, 0), (90, 0)]. \<exists>d.
                     haversine exact_fpu (fst rp) (snd rp) lat lon = Inr d \<and> d < 50
                then [\<lparr>coords = (lat, lon), details = the (title item),
                       location_name = ''Near your route''\<rparr>]
                else []
            | _ \<Rightarrow> []) ?items)"
    using gdacs_correlation [of ?items "[(0, 0), (90, 0)]" exact_fpu] wf by blast
  then have r1: "fetch_and_check_gdacs_alerts exact_fpu (Inr ?items) [(0, 0), (90, 0)]
     = [\<lparr>coords = (90, 0), details = ''Cyclone'', location_name = ''Near your route''\<rparr>,
        \<lparr>coords = (0, 0), details = ''Flood'', location_name = ''Near your route''\<rparr>]"
    by (simp add: haversine_same haversine_pole haversine_pole_rev pole_is_far)
  have "\<forall>q \<in> set [(90, 0)]. \<exists>d. haversine exact_fpu (fst q) (snd q) 0 0 = Inr d"
    using haversine_returns by blast
  then have near: "haversine exact_fpu (fst (0, 0)) (snd (0, 0)) 0 0 = Inr 0 \<and> (0::real) < 50
      \<and> (\<forall>q \<in> set [(90, 0)]. \<exists>d. haversine exact_fpu (fst q) (snd q) 0 0 = Inr d)"
    by (simp only: fst_conv snd_conv haversine_same) simp
  have r2: "route_loop exact_fpu ([(90, 0)] @ (0, 0) # [(0, 0), (90, 0)]) 0 0 ''Flood'' []
       = ([] @ [\<lparr>coords = (0, 0), details = ''Flood'', location_name = ''Near your route''\<rparr>], None)"
    using gdacs_correlation
      [of _ _ exact_fpu "(0, 0)" 0 0 0 "[(90, 0)]" "[(0, 0), (90, 0)]" "''Flood''" "[]"] near
    by blast
  have e: "haversine ?up 0.08 0 (- 0.08) 180 = Inl ValueError"
    by (rule haversine_antipodes_rounded_up)
  have hyp: "title ?quake = Some ''Quake'' \<and> georss_point ?quake = Parsed (- 0.08) 180
      \<and> haversine ?up (fst (0.08, 0)) (snd (0.08, 0)) (- 0.08) 180 = Inl ValueError"
    using e by simp
  have r3: "fetch_and_check_gdacs_alerts ?up (Inr (?quake # [?flood])) ((0.08, 0) # []) = []"
    using gdacs_correlation
      [where fp = ?up and rp = "(0.08, 0)" and lat = "- 0.08" and lon = 180 and item = ?quake
         and ttl = "''Quake''" and e = ValueError and rest = "[?flood]" and after = "[]"]
      hyp
    by blast
  have q: "haversine exact_fpu 0.08 0 (- 0.08) 180 = Inr (6371 * pi)"
    by (rule haversine_antipodes)
  have nq: "\<not> 6371 * pi < 50" using pi_ge_two by simp
  have r4: "fetch_and_check_gdacs_alerts exact_fpu (Inr [?quake, ?flood]) [(0.08, 0)]
       = [\<lparr>coords = (0.08, 0), details = ''Flood'', location_name = ''Near your route''\<rparr>]"
    using q nq by (simp add: fetch_and_check_gdacs_alerts_def haversine_same)
  from r1 r2 e r3 r4 show ?thesis by (intro conjI) simp_all
qed

text \<open>C8. When the download or the parsing of the feed raises (a network error, an HTTP
  error status, a document that is not XML), the function returns the empty list: no
  exception reaches the caller. For the endpoint a failed feed is an empty feed, and
  whenever the weather step returns, the request is answered with the local and the
  weather hazards.\<close>

theorem gdacs_failure_is_empty:
  "fetch_and_check_gdacs_alerts fp (Inl e) route_points = []
   \<and> analyze_route fp start_name end_name coordinates (Inl e) key service date_today
       = analyze_route fp start_name end_name coordinates (Inr []) key service date_today
   \<and> (fetch_weather_alerts key service (map (\<lambda>p. (snd p, fst p)) coordinates)
         = Inr (weather_hazards, requests)
     \<longrightarrow> (\<exists>r. analyze_route fp start_name end_name coordinates (Inl e) key service date_today
                = Inr r
            \<and> hazards r = fetch_local_advisories end_name @ weather_hazards))"
  by (simp add: fetch_and_check_gdacs_alerts_def analyze_route_def aggregate_def Let_def)

text \<open>A request for \<open>Shimla District\<close> with no weather key while the feed is down: the
  answer holds the Shimla advisory.\<close>

theorem gdacs_failure_is_empty_witness:
  "fetch_weather_alerts None (\<lambda>requests pt. Inl ConnectionError)
       (map (\<lambda>p. (snd p, fst p)) [(77.10, 31.10), (77.50, 31.50)]) = Inr ([], [])
   \<and> (\<exists>r. analyze_route exact_fpu ''Delhi'' ''Shimla District'' [(77.10, 31.10), (77.50, 31.50)]
             (Inl ConnectionError) None (\<lambda>requests pt. Inl ConnectionError) ''2024-07-01''
           = Inr r
          \<and> hazards r = [snd (MOCK_LOCAL_ADVISORIES ! 1)])"
proof -
  have w: "fetch_weather_alerts None (\<lambda>requests pt. Inl ConnectionError)
       (map (\<lambda>p. (snd p, fst p)) [(77.10, 31.10), (77.50, 31.50)]) = Inr ([], [])"
    by (simp add: fetch_weather_alerts_def)
  have "\<exists>r. analyze_route exact_fpu ''Delhi'' ''Shimla District'' [(77.10, 31.10), (77.50, 31.50)]
             (Inl ConnectionError) None (\<lambda>requests pt. Inl ConnectionError) ''2024-07-01''
           = Inr r
          \<and> hazards r = fetch_local_advisories ''Shimla District'' @ []"
    using gdacs_failure_is_empty
      [of exact_fpu ConnectionError _ "''Delhi''" "''Shimla District''"
          "[(77.10, 31.10), (77.50, 31.50)]"
          None "\<lambda>requests pt. Inl ConnectionError" "''2024-07-01''" "[]" "[]"] w
    by blast
  then show ?thesis using w by (simp add: fetch_local_shimla)
qed

subsection \<open>Weather alerts\<close>

lemma weather_loop_result:
  "weather_loop service pts requests hs =
     (hs @ concat (map (\<lambda>i. weather_step (pts ! i) (service (requests @ take i pts) (pts ! i)))
                     [0..<length pts]),
      requests @ pts)"
proof (induction pts arbitrary: requests hs)
  case Nil
  show ?case by simp
next
  case (Cons pt rest)
  have "map (\<lambda>i. weather_step ((pt # rest) ! i)
               (service (requests @ take i (pt # rest)) ((pt # rest) ! i)))
          [0..<length (pt # rest)]
      = weather_step pt (service requests pt)
        # map (\<lambda>i. weather_step (rest ! i) (service ((requests @ [pt]) @ take i rest) (rest ! i)))
            [0..<length rest]"
    by (simp add: upt_conv_Cons map_Suc_upt [symmetric] del: upt_Suc)
  then show ?case by (simp add: Cons.IH)
qed

lemma weather_loop_three:
  "weather_loop service [p0, p1, p2] [] [] =
     (weather_step p0 (service [] p0)
        @ weather_step p1 (service [p0] p1)
        @ weather_step p2 (service [p0, p1] p2),
      [p0, p1, p2])"
  by simp

text \<open>C4. A result whose first \<open>weather\<close> entry has the code \<open>i\<close> and a description
  is hazardous exactly when \<open>200 \<le> i < 800\<close>: then the point contributes the one record
  with the details \<open>Weather Alert: \<close> followed by the description, and otherwise none. So
  199 and 800 give no record, 200 and 799 give one. A result with no \<open>weather\<close> entry
  has no code and gives no record.\<close>

theorem weather_classifier_range:
  "weather_step pt
     (Inr \<lparr>weather = Some (\<lparr>weather_id = Some i, description = Some desc\<rparr> # ws), name = nm\<rparr>)
     = (if 200 \<le> i \<and> i < 800
        then [\<lparr>coords = pt, details = ''Weather Alert: '' @ desc,
               location_name = (case nm of None \<Rightarrow> ''Along your route'' | Some n \<Rightarrow> n)\<rparr>]
        else [])
   \<and> (weather_step pt
        (Inr \<lparr>weather = Some (\<lparr>weather_id = Some i, description = Some desc\<rparr> # ws), name = nm\<rparr>)
        \<noteq> []) = (200 \<le> i \<and> i < 800)
   \<and> weather_step pt
        (Inr \<lparr>weather = Some (\<lparr>weather_id = Some 199, description = Some desc\<rparr> # ws), name = nm\<rparr>)
       = []
   \<and> weather_step pt
        (Inr \<lparr>weather = Some (\<lparr>weather_id = Some 800, description = Some desc\<rparr> # ws), name = nm\<rparr>)
       = []
   \<and> map details (weather_step pt
        (Inr \<lparr>weather = Some (\<lparr>weather_id = Some 200, description = Some desc\<rparr> # ws), name = nm\<rparr>))
       = [''Weather Alert: '' @ desc]
   \<and> map details (weather_step pt
        (Inr \<lparr>weather = Some (\<lparr>weather_id = Some 799, description = Some desc\<rparr> # ws), name = nm\<rparr>))
       = [''Weather Alert: '' @ desc]
   \<and> weather_step pt (Inr \<lparr>weather = None, name = nm\<rparr>) = []
   \<and> weather_step pt (Inr \<lparr>weather = Some [], name = nm\<rparr>) = []"
  by (simp add: weather_step_def weather_try_def)

text \<open>C5. With a key configured and a route of \<open>n \<ge> 1\<close> points, the requests sent to the
  weather service are exactly three, for the points at the indices \<open>0\<close>, \<open>n div 2\<close> and
  \<open>n - 1\<close>, in this order. For seven points these are the indices 0, 3 and 6; for a
  single point it is requested three times, and the function returns.\<close>

theorem weather_sampling_indices:
  "(key \<noteq> None \<and> key \<noteq> Some [] \<and> route_points \<noteq> []
     \<longrightarrow> (\<exists>hs. fetch_weather_alerts key service route_points =
            Inr (hs, [route_points ! 0,
                      route_points ! (length route_points div 2),
                      route_points ! (length route_points - 1)])))
   \<and> (key \<noteq> None \<and> key \<noteq> Some [] \<and> length route_points = 7
     \<longrightarrow> (\<exists>hs. fetch_weather_alerts key service route_points =
            Inr (hs, [route_points ! 0, route_points ! 3, route_points ! 6])))
   \<and> (key \<noteq> None \<and> key \<noteq> Some []
     \<longrightarrow> (\<exists>hs. fetch_weather_alerts key service [pt] = Inr (hs, [pt, pt, pt])))"
proof (intro conjI impI)
  assume a: "key \<noteq> None \<and> key \<noteq> Some [] \<and> route_points \<noteq> []"
  then show "\<exists>hs. fetch_weather_alerts key service route_points =
            Inr (hs, [route_points ! 0,
                      route_points ! (length route_points div 2),
                      route_points ! (length route_points - 1)])"
    by (simp add: fetch_weather_alerts_def weather_loop_three last_conv_nth)
next
  assume a: "key \<noteq> None \<and> key \<noteq> Some [] \<and> length route_points = 7"
  then have ne: "route_points \<noteq> []" by auto
  have "length route_points div 2 = 3" "length route_points - 1 = 6" using a by simp_all
  then show "\<exists>hs. fetch_weather_alerts key service route_points =
            Inr (hs, [route_points ! 0, route_points ! 3, route_points ! 6])"
    using a ne by (simp add: fetch_weather_alerts_def weather_loop_three last_conv_nth)
next
  assume "key \<noteq> None \<and> key \<noteq> Some []"
  then show "\<exists>hs. fetch_weather_alerts key service [pt] = Inr (hs, [pt, pt, pt])"
    by (simp add: fetch_weather_alerts_def weather_loop_three)
qed

text \<open>A route of seven points, and a route of one.\<close>

theorem weather_sampling_indices_witness:
  "(\<exists>hs. fetch_weather_alerts (Some ''key'') (\<lambda>requests pt. Inl ConnectionError)
           [(10, 0), (11, 0), (12, 0), (13, 0), (14, 0), (15, 0), (16, 0)]
         = Inr (hs, [(10, 0), (13, 0), (16, 0)]))
   \<and> (\<exists>hs. fetch_weather_alerts (Some ''key'') (\<lambda>requests pt. Inl ConnectionError) [(10, 0)]
         = Inr (hs, [(10, 0), (10, 0), (10, 0)]))"
proof -
  let ?r = "[(10, 0), (11, 0), (12, 0), (13, 0), (14, 0), (15, 0), (16, 0)] :: point list"
  have k: "Some ''key'' \<noteq> None \<and> Some ''key'' \<noteq> Some [] \<and> length ?r = 7" by simp
  have k1: "Some ''key'' \<noteq> None \<and> Some ''key'' \<noteq> Some [] \<and> [(10, 0) :: point] \<noteq> []" by simp
  have a: "\<exists>hs. fetch_weather_alerts (Some ''key'') (\<lambda>requests pt. Inl ConnectionError) ?r
         = Inr (hs, [?r ! 0, ?r ! 3, ?r ! 6])"
    using weather_sampling_indices [of "Some ''key''" ?r "\<lambda>requests pt. Inl ConnectionError"] k
    by blast
  have b: "\<exists>hs. fetch_weather_alerts (Some ''key'') (\<lambda>requests pt. Inl ConnectionError) [(10, 0)]
         = Inr (hs, [[(10, 0)] ! 0, [(10, 0)] ! (length [(10, 0) :: point] div 2),
                     [(10, 0)] ! (length [(10, 0) :: point] - 1)])"
    using weather_sampling_indices
      [of "Some ''key''" "[(10, 0)]" "\<lambda>requests pt. Inl ConnectionError"] k1
    by blast
  from a b show ?thesis by simp
qed

text \<open>C9. Without a key (unset or empty) the function returns the empty list for every
  route, the empty one included, and sends no request. With a key and a route that is not
  empty it returns, never an exception: all three sampled points are requested, a point
  whose lookup or payload raises contributes nothing, and the result is the contributions
  of the three points in order.\<close>

theorem weather_failures_contained:
  "fetch_weather_alerts None service route_points = Inr ([], [])
   \<and> fetch_weather_alerts (Some []) service route_points = Inr ([], [])
   \<and> weather_step pt (Inl e) = []
   \<and> (weather_try pt response = Inl e \<longrightarrow> weather_step pt response = [])
   \<and> (key \<noteq> None \<and> key \<noteq> Some [] \<and> route_points \<noteq> []
     \<longrightarrow> fetch_weather_alerts key service route_points =
          Inr (weather_step (route_points ! 0) (service [] (route_points ! 0))
                 @ weather_step (route_points ! (length route_points div 2))
                     (service [route_points ! 0] (route_points ! (length route_points div 2)))
                 @ weather_step (last route_points)
                     (service [route_points ! 0, route_points ! (length route_points div 2)]
                        (last route_points)),
               [route_points ! 0, route_points ! (length route_points div 2),
                last route_points]))"
  by (simp add: fetch_weather_alerts_def weather_loop_three weather_step_def weather_try_def)

text \<open>A service that answers rain (code 501) except to its second request, which fails:
  the first and the last point are reported, and all three were requested.\<close>

theorem weather_failures_contained_witness:
  "fetch_weather_alerts (Some ''key'')
     (\<lambda>requests pt.
        if length requests = 1 then Inl ConnectionError
        else Inr \<lparr>weather = Some [\<lparr>weather_id = Some 501, description = Some ''moderate rain''\<rparr>],
                  name = None\<rparr>)
     [(31.10, 77.10), (31.30, 77.30), (31.50, 77.50)]
   = Inr ([\<lparr>coords = (31.10, 77.10), details = ''Weather Alert: moderate rain'',
             location_name = ''Along your route''\<rparr>,
           \<lparr>coords = (31.50, 77.50), details = ''Weather Alert: moderate rain'',
             location_name = ''Along your route''\<rparr>],
          [(31.10, 77.10), (31.30, 77.30), (31.50, 77.50)])"
proof -
  let ?svc = "\<lambda>requests pt.
        if length (requests :: point list) = 1 then Inl ConnectionError
        else Inr \<lparr>weather = Some [\<lparr>weather_id = Some 501, description = Some ''moderate rain''\<rparr>],
                  name = None\<rparr>"
  let ?r = "[(31.10, 77.10), (31.30, 77.30), (31.50, 77.50)] :: point list"
  have k: "Some ''key'' \<noteq> None \<and> Some ''key'' \<noteq> Some [] \<and> ?r \<noteq> []" by simp
  have "fetch_weather_alerts (Some ''key'') ?svc ?r =
          Inr (weather_step (?r ! 0) (?svc [] (?r ! 0))
                 @ weather_step (?r ! (length ?r div 2)) (?svc [?r ! 0] (?r ! (length ?r div 2)))
                 @ weather_step (last ?r) (?svc [?r ! 0, ?r ! (length ?r div 2)] (last ?r)),
               [?r ! 0, ?r ! (length ?r div 2), last ?r])"
    using weather_failures_contained [of ?svc ?r _ _ _ "Some ''key''"] k by blast
  then show ?thesis by (simp add: weather_step_def weather_try_def)
qed

subsection \<open>Aggregation and the imagery layer\<close>

lemma urls_differ: "viirs_url d \<noteq> modis_url d'"
  by (simp add: viirs_url_def modis_url_def)

lemma sublist_wildfire: "sublist ''wildfire'' s \<Longrightarrow> sublist ''fire'' s"
proof -
  assume "sublist ''wildfire'' s"
  moreover have "sublist ''fire'' ''wildfire''"
    using sublist_append_leftI [of "''fire''" "''wild''"] by simp
  ultimately show ?thesis by (rule sublist_order.order.trans [rotated])
qed

text \<open>The endpoint returns whenever the weather step does, with the hazards of the three
  sources and the imagery layer of the first of them.\<close>

lemma analyze_route_result:
  assumes "fetch_weather_alerts key service (map (\<lambda>p. (snd p, fst p)) coordinates)
             = Inr (weather_hazards, requests)"
  shows "analyze_route fp start_name end_name coordinates gdacs key service date_today =
     Inr \<lparr>startName = start_name, endName = end_name,
          route = map (\<lambda>p. (snd p, fst p)) coordinates,
          hazards =
            aggregate (fetch_local_advisories end_name)
              (fetch_and_check_gdacs_alerts fp gdacs (map (\<lambda>p. (snd p, fst p)) coordinates))
              weather_hazards,
          satelliteUrl =
            get_satellite_url date_today
              (case aggregate (fetch_local_advisories end_name)
                      (fetch_and_check_gdacs_alerts fp gdacs (map (\<lambda>p. (snd p, fst p)) coordinates))
                      weather_hazards of
                 [] \<Rightarrow> None
               | h # hs \<Rightarrow> Some (details h))\<rparr>"
  using assms by (simp add: analyze_route_def Let_def)

text \<open>C1. The aggregate is the concatenation of the local, the disaster and the weather
  hazards in this order, each list in its own order; three single records \<open>L\<close>, \<open>D\<close>,
  \<open>W\<close> give \<open>[L, D, W]\<close>. The hazards of the endpoint's answer are this aggregate of
  what the three sources returned.\<close>

theorem aggregate_concatenates:
  "aggregate local_hazards disaster_hazards weather_hazards
     = local_hazards @ disaster_hazards @ weather_hazards
   \<and> aggregate [L] [D] [W] = [L, D, W]
   \<and> (analyze_route fp start_name end_name coordinates gdacs key service date_today = Inr r
     \<longrightarrow> (\<exists>ws requests.
            fetch_weather_alerts key service (map (\<lambda>p. (snd p, fst p)) coordinates)
              = Inr (ws, requests)
            \<and> hazards r =
                fetch_local_advisories end_name
                  @ fetch_and_check_gdacs_alerts fp gdacs (map (\<lambda>p. (snd p, fst p)) coordinates)
                  @ ws))"
proof (intro conjI impI)
  show "aggregate local_hazards disaster_hazards weather_hazards
     = local_hazards @ disaster_hazards @ weather_hazards"
    by (simp add: aggregate_def)
  show "aggregate [L] [D] [W] = [L, D, W]"
    by (simp add: aggregate_def)
next
  assume a: "analyze_route fp start_name end_name coordinates gdacs key service date_today = Inr r"
  show "\<exists>ws requests.
            fetch_weather_alerts key service (map (\<lambda>p. (snd p, fst p)) coordinates)
              = Inr (ws, requests)
            \<and> hazards r =
                fetch_local_advisories end_name
                  @ fetch_and_check_gdacs_alerts fp gdacs (map (\<lambda>p. (snd p, fst p)) coordinates)
                  @ ws"
  proof (cases "fetch_weather_alerts key service (map (\<lambda>p. (snd p, fst p)) coordinates)")
    case (Inl e)
    then show ?thesis using a by (simp add: analyze_route_def Let_def)
  next
    case (Inr res)
    obtain ws requests where res: "res = (ws, requests)" by (cases res)
    have w: "fetch_weather_alerts key service (map (\<lambda>p. (snd p, fst p)) coordinates)
        = Inr (ws, requests)"
      using Inr res by simp
    have "hazards r =
        aggregate (fetch_local_advisories end_name)
          (fetch_and_check_gdacs_alerts fp gdacs (map (\<lambda>p. (snd p, fst p)) coordinates)) ws"
      using a analyze_route_result [OF w, of fp start_name end_name gdacs date_today] by auto
    then show ?thesis using w by (simp add: aggregate_def)
  qed
qed

text \<open>The request of the specification's end-to-end example, with the disaster entry put
  on the first route point: destination \<open>Shimla District\<close>, a route of two points, rain
  (code 501) at every sampled point. The answer lists the local advisory, then the
  disaster record, then the three weather records.\<close>

lemma example_weather:
  "fetch_weather_alerts (Some ''key'')
     (\<lambda>requests pt.
        Inr \<lparr>weather = Some [\<lparr>weather_id = Some 501, description = Some ''moderate rain''\<rparr>],
             name = Some ''Shimla''\<rparr>)
     (map (\<lambda>p. (snd p, fst p)) [(77.10, 31.10), (77.50, 31.50)])
   = Inr ([\<lparr>coords = (31.10, 77.10), details = ''Weather Alert: moderate rain'',
             location_name = ''Shimla''\<rparr>,
           \<lparr>coords = (31.50, 77.50), details = ''Weather Alert: moderate rain'',
             location_name = ''Shimla''\<rparr>,
           \<lparr>coords = (31.50, 77.50), details = ''Weather Alert: moderate rain'',
             location_name = ''Shimla''\<rparr>],
          [(31.10, 77.10), (31.50, 77.50), (31.50, 77.50)])"
  by (simp add: fetch_weather_alerts_def weather_step_def weather_try_def)

lemma example_gdacs:
  "fetch_and_check_gdacs_alerts exact_fpu
     (Inr [\<lparr>title = Some ''Forest fire in Himachal'', georss_point = Parsed 31.10 77.10\<rparr>])
     (map (\<lambda>p. (snd p, fst p)) [(77.10, 31.10), (77.50, 31.50)])
   = [\<lparr>coords = (31.10, 77.10), details = ''Forest fire in Himachal'',
        location_name = ''Near your route''\<rparr>]"
  by (simp add: fetch_and_check_gdacs_alerts_def haversine_same)

theorem aggregate_concatenates_witness:
  "\<exists>r. analyze_route exact_fpu ''Delhi'' ''Shimla District'' [(77.10, 31.10), (77.50, 31.50)]
          (Inr [\<lparr>title = Some ''Forest fire in Himachal'', georss_point = Parsed 31.10 77.10\<rparr>])
          (Some ''key'')
          (\<lambda>requests pt.
             Inr \<lparr>weather = Some [\<lparr>weather_id = Some 501, description = Some ''moderate rain''\<rparr>],
                  name = Some ''Shimla''\<rparr>)
          ''2024-07-01'' = Inr r
       \<and> hazards r =
           [snd (MOCK_LOCAL_ADVISORIES ! 1),
            \<lparr>coords = (31.10, 77.10), details = ''Forest fire in Himachal'',
              location_name = ''Near your route''\<rparr>,
            \<lparr>coords = (31.10, 77.10), details = ''Weather Alert: moderate rain'',
              location_name = ''Shimla''\<rparr>,
            \<lparr>coords = (31.50, 77.50), details = ''Weather Alert: moderate rain'',
              location_name = ''Shimla''\<rparr>,
            \<lparr>coords = (31.50, 77.50), details = ''Weather Alert: moderate rain'',
              location_name = ''Shimla''\<rparr>]"
proof -
  let ?svc = "\<lambda>(requests :: point list) (pt :: point).
             Inr \<lparr>weather = Some [\<lparr>weather_id = Some 501, description = Some ''moderate rain''\<rparr>],
                  name = Some ''Shimla''\<rparr> :: weather_response"
  let ?feed = "Inr [\<lparr>title = Some ''Forest fire in Himachal'', georss_point = Parsed 31.10 77.10\<rparr>]
     :: gdacs_response"
  let ?cs = "[(77.10, 31.10), (77.50, 31.50)] :: point list"
  obtain r where r: "analyze_route exact_fpu ''Delhi'' ''Shimla District'' ?cs ?feed (Some ''key'') ?svc
      ''2024-07-01'' = Inr r"
    using analyze_route_result [OF example_weather] by blast
  from aggregate_concatenates
    [where fp = exact_fpu and start_name = "''Delhi''" and end_name = "''Shimla District''"
       and coordinates = ?cs and gdacs = ?feed and key = "Some ''key''" and service = ?svc
       and date_today = "''2024-07-01''" and r = r]
    r
  obtain ws requests where
    w: "fetch_weather_alerts (Some ''key'') ?svc (map (\<lambda>p. (snd p, fst p)) ?cs) = Inr (ws, requests)"
    and h: "hazards r = fetch_local_advisories ''Shimla District''
              @ fetch_and_check_gdacs_alerts exact_fpu ?feed (map (\<lambda>p. (snd p, fst p)) ?cs) @ ws"
    by blast
  from w have ws: "ws = [\<lparr>coords = (31.10, 77.10), details = ''Weather Alert: moderate rain'',
              location_name = ''Shimla''\<rparr>,
            \<lparr>coords = (31.50, 77.50), details = ''Weather Alert: moderate rain'',
              location_name = ''Shimla''\<rparr>,
            \<lparr>coords = (31.50, 77.50), details = ''Weather Alert: moderate rain'',
              location_name = ''Shimla''\<rparr>]"
    by (simp only: example_weather sum.inject prod.inject)
  have "hazards r =
           [snd (MOCK_LOCAL_ADVISORIES ! 1),
            \<lparr>coords = (31.10, 77.10), details = ''Forest fire in Himachal'',
              location_name = ''Near your route''\<rparr>,
            \<lparr>coords = (31.10, 77.10), details = ''Weather Alert: moderate rain'',
              location_name = ''Shimla''\<rparr>,
            \<lparr>coords = (31.50, 77.50), details = ''Weather Alert: moderate rain'',
              location_name = ''Shimla''\<rparr>,
            \<lparr>coords = (31.50, 77.50), details = ''Weather Alert: moderate rain'',
              location_name = ''Shimla''\<rparr>]"
    unfolding h ws by (simp only: example_gdacs fetch_local_shimla append.simps)
  with r show ?thesis by blast
qed

lemma lower_Nil: "lower [] = []"
  by (simp add: lower_def)

text \<open>C10. The selector returns the VIIRS thermal-anomalies template exactly when it is
  given a string that contains \<open>fire\<close> or \<open>wildfire\<close>, letter case ignored, and the MODIS
  true-colour template in every other case: no argument, the empty string, a string
  without these words. The endpoint gives it the details of the first aggregated hazard,
  and no argument when there is no hazard.\<close>

theorem satellite_layer_selection:
  "get_satellite_url date_today hazard_type =
     (if \<exists>s. hazard_type = Some s
              \<and> (sublist ''fire'' (lower s) \<or> sublist ''wildfire'' (lower s))
      then viirs_url date_today
      else modis_url date_today)
   \<and> (get_satellite_url date_today hazard_type = viirs_url date_today)
       = (\<exists>s. hazard_type = Some s
              \<and> (sublist ''fire'' (lower s) \<or> sublist ''wildfire'' (lower s)))
   \<and> (analyze_route fp start_name end_name coordinates gdacs key service date_today = Inr r
     \<longrightarrow> satelliteUrl r =
          get_satellite_url date_today
            (case hazards r of [] \<Rightarrow> None | h # hs \<Rightarrow> Some (details h)))"
proof -
  let ?fire = "\<exists>s. hazard_type = Some s
              \<and> (sublist ''fire'' (lower s) \<or> sublist ''wildfire'' (lower s))"
  have sel: "get_satellite_url date_today hazard_type =
     (if ?fire then viirs_url date_today else modis_url date_today)"
  proof (cases hazard_type)
    case None
    then show ?thesis by (simp add: get_satellite_url_def)
  next
    case (Some ht)
    show ?thesis
    proof (cases "ht = []")
      case True
      then show ?thesis using Some by (simp add: get_satellite_url_def lower_Nil)
    next
      case False
      then show ?thesis using Some by (simp add: get_satellite_url_def str_in_sublist)
    qed
  qed
  have iff: "(get_satellite_url date_today hazard_type = viirs_url date_today) = ?fire"
    unfolding sel using urls_differ [of date_today date_today]
    by (simp only: if_split [of "\<lambda>u. u = viirs_url date_today"]) auto
  have ep: "analyze_route fp start_name end_name coordinates gdacs key service date_today = Inr r
     \<longrightarrow> satelliteUrl r =
          get_satellite_url date_today
            (case hazards r of [] \<Rightarrow> None | h # hs \<Rightarrow> Some (details h))"
  proof
    assume a: "analyze_route fp start_name end_name coordinates gdacs key service date_today = Inr r"
    show "satelliteUrl r =
          get_satellite_url date_today
            (case hazards r of [] \<Rightarrow> None | h # hs \<Rightarrow> Some (details h))"
    proof (cases "fetch_weather_alerts key service (map (\<lambda>p. (snd p, fst p)) coordinates)")
      case (Inl e)
      then show ?thesis using a by (simp add: analyze_route_def Let_def)
    next
      case (Inr res)
      obtain ws requests where "res = (ws, requests)" by (cases res)
      then have w: "fetch_weather_alerts key service (map (\<lambda>p. (snd p, fst p)) coordinates)
          = Inr (ws, requests)"
        using Inr by simp
      show ?thesis
        using a analyze_route_result [OF w, of fp start_name end_name gdacs date_today] by auto
    qed
  qed
  from sel iff ep show ?thesis by (intro conjI)
qed

text \<open>Two requests without a weather key. To \<open>Nagpur\<close>, with a fire reported on the
  route: the first hazard is the fire, the layer is VIIRS. To \<open>Shimla District\<close> with the
  same feed: the first hazard is the Shimla road advisory, which does not mention fire,
  and the layer is MODIS although the second hazard is the fire.\<close>

theorem satellite_layer_selection_witness:
  "(\<exists>r. analyze_route exact_fpu ''Delhi'' ''Nagpur'' [(77, 31), (78, 32)]
          (Inr [\<lparr>title = Some ''Forest fire in Himachal'', georss_point = Parsed 31 77\<rparr>])
          None (\<lambda>requests pt. Inl ConnectionError) ''2024-07-01'' = Inr r
        \<and> map details (hazards r) = [''Forest fire in Himachal'']
        \<and> satelliteUrl r = viirs_url ''2024-07-01'')
   \<and> (\<exists>r. analyze_route exact_fpu ''Delhi'' ''Shimla District'' [(77, 31), (78, 32)]
          (Inr [\<lparr>title = Some ''Forest fire in Himachal'', georss_point = Parsed 31 77\<rparr>])
          None (\<lambda>requests pt. Inl ConnectionError) ''2024-07-01'' = Inr r
        \<and> length (hazards r) = 2
        \<and> satelliteUrl r = modis_url ''2024-07-01'')
   \<and> get_satellite_url ''2024-07-01'' None = modis_url ''2024-07-01''"
proof -
  let ?svc = "\<lambda>(requests :: point list) (pt :: point). Inl ConnectionError :: weather_response"
  let ?feed = "Inr [\<lparr>title = Some ''Forest fire in Himachal'', georss_point = Parsed 31 77\<rparr>]
     :: gdacs_response"
  let ?cs = "[(77, 31), (78, 32)] :: point list"
  let ?rp = "map (\<lambda>p. (snd p, fst p)) ?cs"
  let ?fire = "\<lparr>coords = (31, 77), details = ''Forest fire in Himachal'',
                 location_name = ''Near your route''\<rparr>"
  let ?shimla = "snd (MOCK_LOCAL_ADVISORIES ! 1)"
  have w: "fetch_weather_alerts None ?svc ?rp = Inr ([], [])"
    by (simp add: fetch_weather_alerts_def)
  have g: "fetch_and_check_gdacs_alerts exact_fpu ?feed ?rp = [?fire]"
    by (simp add: fetch_and_check_gdacs_alerts_def haversine_same)
  have f1: "sublist ''fire'' (lower ''Forest fire in Himachal'')" by code_simp
  have f2: "\<not> sublist ''fire'' (lower (details ?shimla))"
    by code_simp
  have f3: "\<not> sublist ''wildfire'' (lower (details ?shimla))"
    using f2 sublist_wildfire by blast
  have n: "fetch_local_advisories ''Nagpur'' = []" using fetch_local_none by simp
  \<comment> \<open>The request to Nagpur.\<close>
  obtain r1 where
    r1: "analyze_route exact_fpu ''Delhi'' ''Nagpur'' ?cs ?feed None ?svc ''2024-07-01'' = Inr r1"
    using analyze_route_result [OF w] by blast
  have h1: "hazards r1 = [?fire]"
    using r1 unfolding analyze_route_result [OF w] g n aggregate_def by auto
  have "satelliteUrl r1 =
      get_satellite_url ''2024-07-01'' (case hazards r1 of [] \<Rightarrow> None | h # hs \<Rightarrow> Some (details h))"
    using satellite_layer_selection
      [where date_today = "''2024-07-01''" and fp = exact_fpu and start_name = "''Delhi''"
         and end_name = "''Nagpur''" and coordinates = ?cs and gdacs = ?feed and key = None
         and service = ?svc and r = r1] r1
    by blast
  then have u1: "satelliteUrl r1 =
      get_satellite_url ''2024-07-01'' (Some ''Forest fire in Himachal'')"
    unfolding h1 by simp
  have v1: "get_satellite_url ''2024-07-01'' (Some ''Forest fire in Himachal'')
      = viirs_url ''2024-07-01''"
    using satellite_layer_selection [of "''2024-07-01''" "Some ''Forest fire in Himachal''"] f1
    by simp
  \<comment> \<open>The request to Shimla District.\<close>
  obtain r2 where
    r2: "analyze_route exact_fpu ''Delhi'' ''Shimla District'' ?cs ?feed None ?svc ''2024-07-01'' = Inr r2"
    using analyze_route_result [OF w] by blast
  have h2: "hazards r2 = [?shimla, ?fire]"
    using r2 unfolding analyze_route_result [OF w] g fetch_local_shimla aggregate_def by auto
  have "satelliteUrl r2 =
      get_satellite_url ''2024-07-01'' (case hazards r2 of [] \<Rightarrow> None | h # hs \<Rightarrow> Some (details h))"
    using satellite_layer_selection
      [where date_today = "''2024-07-01''" and fp = exact_fpu and start_name = "''Delhi''"
         and end_name = "''Shimla District''" and coordinates = ?cs and gdacs = ?feed
         and key = None and service = ?svc and r = r2] r2
    by blast
  then have u2: "satelliteUrl r2 = get_satellite_url ''2024-07-01'' (Some (details ?shimla))"
    unfolding h2 by simp
  have v2: "get_satellite_url ''2024-07-01'' (Some (details ?shimla)) = modis_url ''2024-07-01''"
    using satellite_layer_selection [of "''2024-07-01''" "Some (details ?shimla)"] f2 f3
    by simp
  have v3: "get_satellite_url ''2024-07-01'' None = modis_url ''2024-07-01''"
    using satellite_layer_selection [of "''2024-07-01''" None] by simp
  have a: "\<exists>r. analyze_route exact_fpu ''Delhi'' ''Nagpur'' ?cs ?feed None ?svc ''2024-07-01'' = Inr r
        \<and> map details (hazards r) = [''Forest fire in Himachal'']
        \<and> satelliteUrl r = viirs_url ''2024-07-01''"
  proof (intro exI [of _ r1] conjI)
    show "analyze_route exact_fpu ''Delhi'' ''Nagpur'' ?cs ?feed None ?svc ''2024-07-01'' = Inr r1"
      by (rule r1)
    show "map details (hazards r1) = [''Forest fire in Himachal'']" unfolding h1 by simp
    show "satelliteUrl r1 = viirs_url ''2024-07-01''" using u1 v1 by simp
  qed
  have b: "\<exists>r. analyze_route exact_fpu ''Delhi'' ''Shimla District'' ?cs ?feed None ?svc ''2024-07-01'' = Inr r
        \<and> length (hazards r) = 2
        \<and> satelliteUrl r = modis_url ''2024-07-01''"
  proof (intro exI [of _ r2] conjI)
    show "analyze_route exact_fpu ''Delhi'' ''Shimla District'' ?cs ?feed None ?svc ''2024-07-01'' = Inr r2"
      by (rule r2)
    show "length (hazards r2) = 2" unfolding h2 by simp
    show "satelliteUrl r2 = modis_url ''2024-07-01''" using u2 v2 by simp
  qed
  from a b v3 show ?thesis by (intro conjI)
qed

end
